theory Spec2Isabelle
  imports Complex_Main "HOL-Library.Word" "HOL-Library.Log_Nat"
begin

section \<open>Data model of imcgknEngine.hpp\<close>

text \<open>
  The header wraps SDL2 and OpenGL.  Both libraries are outside the program: a call into
  the graphics driver is recorded as a value of \<open>gl_call\<close>, in the order the code issues
  it, and what a library answers (an object name, a uniform location, the event queue, the
  performance counter) is an argument of the operation that asks for it.

  Sizes and counts (\<open>size_t\<close>) are \<open>nat\<close>: a \<open>std::vector\<close> cannot hold so many elements
  that \<open>size() * sizeof(T)\<close> leaves \<open>size_t\<close>.
\<close>

subsection \<open>IEEE 754 arithmetic\<close>

text \<open>
  A C++ \<open>float\<close> is a binary32 value and a \<open>double\<close> a binary64 value: a finite number,
  an infinity or a NaN.  An operation computes the exact result and rounds it to the
  nearest value of its format, ties to the even significand, and to an infinity from
  \<open>2 ^ 128\<close> (binary32) or \<open>2 ^ 1024\<close> (binary64) on.  Every operation rounds once, to
  the format of its operands: no wider intermediate precision and no fused multiply-add.
  The sign of a zero is not recorded:
  the header compares floats and adds, subtracts and multiplies them, which the sign of a
  zero does not influence, and the divisor of its one division is converted from an
  unsigned counter, so a zero divisor is \<open>+0\<close>.
\<close>

datatype ieee = Finite real | PlusInfinity | MinusInfinity | NaN

type_synonym float = ieee
type_synonym double = ieee

text \<open>
  A format: the number of significand bits, the exponent of the smallest subnormal, and
  the exponent of the power of two at which rounded results overflow.
\<close>

record format =
  precision :: nat
  least_exponent :: int
  overflow_exponent :: int

definition binary32 :: format where
  "binary32 = \<lparr> precision = 24, least_exponent = - 149, overflow_exponent = 128 \<rparr>"

definition binary64 :: format where
  "binary64 = \<lparr> precision = 53, least_exponent = - 1074, overflow_exponent = 1024 \<rparr>"

definition pow2 :: "int \<Rightarrow> real" where
  "pow2 e = (if 0 \<le> e then 2 ^ nat e else 1 / 2 ^ nat (- e))"

text \<open>The binary exponent of a positive number: \<open>pow2 (ilog2 x) \<le> x < pow2 (ilog2 x + 1)\<close>.\<close>

definition ilog2 :: "real \<Rightarrow> int" where
  "ilog2 x =
     (if 1 \<le> x then int (floorlog 2 (nat \<lfloor>x\<rfloor>)) - 1
      else - int (floorlog 2 (nat (\<lceil>1 / x\<rceil> - 1))))"

definition round_half_even :: "real \<Rightarrow> int" where
  "round_half_even y =
     (let f = \<lfloor>y\<rfloor>; d = y - of_int f
      in if d < 1 / 2 then f else if 1 / 2 < d then f + 1 else if even f then f else f + 1)"

text \<open>
  Rounding a real number to a format: the significand is rounded at the quantum
  \<open>pow2 q\<close> that leaves it \<open>precision\<close> bits, or at the quantum of the subnormals.
\<close>

definition fl :: "format \<Rightarrow> real \<Rightarrow> ieee" where
  "fl fmt x =
     (if x = 0 then Finite 0
      else
        let q = max (ilog2 \<bar>x\<bar> - (int (precision fmt) - 1)) (least_exponent fmt);
            v = of_int (round_half_even (\<bar>x\<bar> / pow2 q)) * pow2 q
        in if pow2 (overflow_exponent fmt) \<le> v
           then (if 0 < x then PlusInfinity else MinusInfinity)
           else Finite (if 0 < x then v else - v))"

fun fneg :: "ieee \<Rightarrow> ieee" where
  "fneg (Finite x) = Finite (- x)"
| "fneg PlusInfinity = MinusInfinity"
| "fneg MinusInfinity = PlusInfinity"
| "fneg NaN = NaN"

fun fadd :: "format \<Rightarrow> ieee \<Rightarrow> ieee \<Rightarrow> ieee" where
  "fadd fmt (Finite x) (Finite y) = fl fmt (x + y)"
| "fadd fmt NaN b = NaN"
| "fadd fmt a NaN = NaN"
| "fadd fmt PlusInfinity MinusInfinity = NaN"
| "fadd fmt MinusInfinity PlusInfinity = NaN"
| "fadd fmt PlusInfinity b = PlusInfinity"
| "fadd fmt a PlusInfinity = PlusInfinity"
| "fadd fmt MinusInfinity b = MinusInfinity"
| "fadd fmt a MinusInfinity = MinusInfinity"

definition fsub :: "format \<Rightarrow> ieee \<Rightarrow> ieee \<Rightarrow> ieee" where
  "fsub fmt a b = fadd fmt a (fneg b)"

fun fmul :: "format \<Rightarrow> ieee \<Rightarrow> ieee \<Rightarrow> ieee" where
  "fmul fmt (Finite x) (Finite y) = fl fmt (x * y)"
| "fmul fmt NaN b = NaN"
| "fmul fmt a NaN = NaN"
| "fmul fmt (Finite x) b =
     (if x = 0 then NaN else if (x < 0) = (b = MinusInfinity) then PlusInfinity else MinusInfinity)"
| "fmul fmt a (Finite y) =
     (if y = 0 then NaN else if (y < 0) = (a = MinusInfinity) then PlusInfinity else MinusInfinity)"
| "fmul fmt a b = (if a = b then PlusInfinity else MinusInfinity)"

fun fdiv :: "format \<Rightarrow> ieee \<Rightarrow> ieee \<Rightarrow> ieee" where
  "fdiv fmt (Finite x) (Finite y) =
     (if y = 0
      then (if x = 0 then NaN else if 0 < x then PlusInfinity else MinusInfinity)
      else fl fmt (x / y))"
| "fdiv fmt NaN b = NaN"
| "fdiv fmt a NaN = NaN"
| "fdiv fmt (Finite x) b = Finite 0"
| "fdiv fmt a (Finite y) = (if (y < 0) = (a = MinusInfinity) then PlusInfinity else MinusInfinity)"
| "fdiv fmt a b = NaN"

text \<open>Conversion between the formats, \<open>static_cast<float>\<close> of a \<open>double\<close>.\<close>

fun fconvert :: "format \<Rightarrow> ieee \<Rightarrow> ieee" where
  "fconvert fmt (Finite x) = fl fmt x"
| "fconvert fmt a = a"

text \<open>The comparison \<open><\<close>; \<open>a > b\<close> is \<open>fless b a\<close>.  A NaN compares false.\<close>

fun fless :: "ieee \<Rightarrow> ieee \<Rightarrow> bool" where
  "fless (Finite x) (Finite y) = (x < y)"
| "fless NaN b = False"
| "fless a NaN = False"
| "fless a MinusInfinity = False"
| "fless PlusInfinity b = False"
| "fless a b = True"

instantiation ieee :: zero
begin

definition zero_ieee :: ieee where
  "zero_ieee = Finite 0"

instance ..

end

type_synonym vec3 = "float \<times> float \<times> float"
type_synonym vec2 = "float \<times> float"

record Vertex =
  aPos :: vec3
  aColor :: vec3
  aNormal :: vec3
  aUV :: vec2

record Transform =
  Position :: vec3
  Scale :: vec3
  Rotation :: vec3

text \<open>The enumerators in the order of the source: \<open>JustPressed\<close> has the value 0.\<close>

datatype KeyState = JustPressed | JustReleased | Down | Released

datatype RenderMode =
  Points | Lines | Line_Loop | Line_Strip | Triangles | Triangle_Fan | Triangle_Strip

datatype BufferUsage =
  Empty | StaticDraw | StaticCopy | StaticRead | DynamicDraw | DynamicCopy | DynamicRead

datatype TextureType =
  Texture1D | Texture1DArray | Texture2D | Texture2DArray | Texture3D | TextureCubemap

text \<open>\<open>sizeof(Vertex)\<close>: eleven packed 4-byte floats; \<open>sizeof(unsigned int)\<close>.\<close>

definition sizeof_Vertex :: nat where
  "sizeof_Vertex = 44"

definition sizeof_unsigned_int :: nat where
  "sizeof_unsigned_int = 4"

subsection \<open>Calls into the graphics driver\<close>

datatype buffer_target = GL_ARRAY_BUFFER | GL_ELEMENT_ARRAY_BUFFER

datatype buffer_data = VertexData "Vertex list" | IndexData "32 word list"

text \<open>
  One constructor for each driver entry point the modelled operations use, with the
  arguments of the call.  \<open>GlUniformMatrix4fv\<close> carries the transform from which the
  model matrix translate * scale * rotate_z * rotate_y * rotate_x is composed, in place
  of the sixteen floats.
\<close>

datatype gl_call =
    GlViewport int int int int
  | GlUseProgram nat
  | GlGetUniformLocation nat string
  | GlUniformMatrix4fv int int bool Transform
  | GlUniform4fv int int "float \<times> float \<times> float \<times> float"
  | GlUniform3fv int int vec3
  | GlUniform2fv int int vec2
  | GlUniform1f int float
  | GlUniform1i int int
  | GlActiveTexture nat
  | GlBindTexture TextureType nat
  | GlGenVertexArrays nat
  | GlBindVertexArray nat
  | GlEnableVertexAttribArray nat
  | GlVertexAttribPointer nat nat bool nat nat
  | GlDrawElements RenderMode nat
  | GlDrawArrays RenderMode nat nat
  | GlGenBuffers nat
  | GlDeleteBuffers nat
  | GlBindBuffer buffer_target nat
  | GlBufferData buffer_target nat buffer_data BufferUsage
  | GlBufferSubData buffer_target nat nat buffer_data

datatype error = RuntimeError string | NullDereference

section \<open>Window: the per-frame input state\<close>

type_synonym SDL_Scancode = nat
type_synonym uint8_t = "8 word"

text \<open>\<open>SDL_NUM_SCANCODES\<close> of SDL2's \<open>SDL_scancode.h\<close>.\<close>

definition SDL_NUM_SCANCODES :: nat where
  "SDL_NUM_SCANCODES = 512"

record Window =
  window :: nat
  glContext :: nat
  m_Width :: int
  m_Height :: int
  m_IsOpen :: bool
  m_IsResized :: bool
  m_DeltaTime :: double
  m_LastFrame :: double
  m_MousePosX :: float
  m_MousePosY :: float
  m_MouseRelX :: float
  m_MouseRelY :: float
  m_ScrollDistance :: float
  m_ZoomSpeed :: float
  m_Keys :: "SDL_Scancode \<rightharpoonup> KeyState"
  m_MouseButtons :: "uint8_t \<rightharpoonup> KeyState"

text \<open>
  The events \<open>FirstUpdate\<close> switches on, with the fields it reads.  \<open>SDL_WINDOWEVENT\<close>
  carries whether \<open>ev.window.event\<close> is \<open>SDL_WINDOWEVENT_RESIZED\<close>, then \<open>data1\<close> and
  \<open>data2\<close>; \<open>SDL_MOUSEMOTION\<close> carries \<open>xrel\<close>, \<open>yrel\<close>, \<open>x\<close>, \<open>y\<close>;
  \<open>SDL_MOUSEWHEEL\<close> carries \<open>preciseY\<close>.  Every other event type is \<open>SDL_OTHEREVENT\<close>.
\<close>

datatype SDL_Event =
    SDL_QUIT
  | SDL_KEYDOWN SDL_Scancode
  | SDL_KEYUP SDL_Scancode
  | SDL_MOUSEBUTTONDOWN uint8_t
  | SDL_MOUSEBUTTONUP uint8_t
  | SDL_WINDOWEVENT bool int int
  | SDL_MOUSEMOTION int int int int
  | SDL_MOUSEWHEEL float
  | SDL_OTHEREVENT

text \<open>What SDL and the loader answer while a window is constructed.\<close>

record sdl_startup =
  SDL_Init_result :: int
  SDL_CreateWindow_result :: nat
  SDL_GL_CreateContext_result :: nat
  gladLoadGLLoader_result :: bool
  SDL_GL_GetDrawableSize_result :: "int \<times> int"
  SDL_GetPerformanceCounter_result :: "64 word"

text \<open>
  The two initialisation loops of the constructor,
  \<open>for (int i = 0; i < n; ++i) m[cast(i)] = KeyState::Released\<close>.
\<close>

definition release_range :: "(nat \<Rightarrow> 'k) \<Rightarrow> nat \<Rightarrow> ('k \<rightharpoonup> KeyState) \<Rightarrow> ('k \<rightharpoonup> KeyState)" where
  "release_range cast n m = fold (\<lambda>i acc. acc(cast i \<mapsto> Released)) [0..<n] m"

text \<open>
  The constructor.  The title, the OpenGL version and the window flags go to SDL and are
  stored nowhere; \<open>w\<close> and \<open>h\<close> size the SDL window, and \<open>m_Width\<close> and \<open>m_Height\<close>
  end as the drawable size SDL reports.  \<open>Error(x)\<close> throws \<open>std::runtime_error\<close>; a
  null \<open>SDL_Window*\<close> is 0.  The member initialisers give the other fields their first
  values.
\<close>

definition Window_init :: "int \<Rightarrow> int \<Rightarrow> sdl_startup \<Rightarrow> error + (Window \<times> gl_call list)" where
  "Window_init w h env =
     (if SDL_Init_result env < 0 then Inl (RuntimeError ''Failed to initialize SDL2.'')
      else if SDL_CreateWindow_result env = 0 then Inl (RuntimeError ''Failed to create SDL_window.'')
      else if \<not> gladLoadGLLoader_result env then Inl (RuntimeError ''Failed to load GLAD!'')
      else
        let (dw, dh) = SDL_GL_GetDrawableSize_result env in
        Inr (\<lparr> window = SDL_CreateWindow_result env,
                glContext = SDL_GL_CreateContext_result env,
                m_Width = dw, m_Height = dh,
                m_IsOpen = True, m_IsResized = False,
                m_DeltaTime = 0,
                m_LastFrame = fl binary64 (real (unat (SDL_GetPerformanceCounter_result env))),
                m_MousePosX = 0, m_MousePosY = 0,
                m_MouseRelX = 0, m_MouseRelY = 0,
                m_ScrollDistance = 0, m_ZoomSpeed = Finite 550,
                m_Keys = release_range id SDL_NUM_SCANCODES Map.empty,
                m_MouseButtons = release_range of_nat 5 Map.empty \<rparr>,
             [GlViewport 0 0 dw dh]))"

text \<open>
  \<open>UpdateDeltaTime\<close>, given the performance counter and its frequency, both \<open>Uint64\<close>
  and converted to \<open>double\<close>.
\<close>

definition UpdateDeltaTime :: "64 word \<Rightarrow> 64 word \<Rightarrow> Window \<Rightarrow> Window" where
  "UpdateDeltaTime counter frequency w =
     (let newFrame = fl binary64 (real (unat counter)) in
      w\<lparr> m_DeltaTime :=
           fdiv binary64 (fsub binary64 newFrame (m_LastFrame w))
             (fl binary64 (real (unat frequency))),
         m_LastFrame := newFrame \<rparr>)"

definition GetDeltaTime :: "Window \<Rightarrow> float" where
  "GetDeltaTime w = fconvert binary32 (m_DeltaTime w)"

text \<open>One iteration of the \<open>while (SDL_PollEvent(&ev))\<close> loop: the \<open>switch\<close>.\<close>

fun handle_event :: "SDL_Event \<Rightarrow> Window \<Rightarrow> Window \<times> gl_call list" where
  "handle_event SDL_QUIT w = (w\<lparr> m_IsOpen := False \<rparr>, [])"
| "handle_event (SDL_KEYDOWN sc) w = (w\<lparr> m_Keys := (m_Keys w)(sc \<mapsto> JustPressed) \<rparr>, [])"
| "handle_event (SDL_KEYUP sc) w = (w\<lparr> m_Keys := (m_Keys w)(sc \<mapsto> JustReleased) \<rparr>, [])"
| "handle_event (SDL_MOUSEBUTTONDOWN b) w =
     (w\<lparr> m_MouseButtons := (m_MouseButtons w)(b \<mapsto> JustPressed) \<rparr>, [])"
| "handle_event (SDL_MOUSEBUTTONUP b) w =
     (w\<lparr> m_MouseButtons := (m_MouseButtons w)(b \<mapsto> JustReleased) \<rparr>, [])"
| "handle_event (SDL_WINDOWEVENT resized data1 data2) w =
     (if resized
      then (w\<lparr> m_Width := data1, m_Height := data2, m_IsResized := True \<rparr>,
            [GlViewport 0 0 data1 data2])
      else (w, []))"
| "handle_event (SDL_MOUSEMOTION xrel yrel x y) w =
     (w\<lparr> m_MouseRelX := fl binary32 (real_of_int xrel),
         m_MouseRelY := fl binary32 (real_of_int yrel),
         m_MousePosX := fl binary32 (real_of_int x),
         m_MousePosY := fl binary32 (real_of_int y) \<rparr>, [])"
| "handle_event (SDL_MOUSEWHEEL preciseY) w =
     (if fless 0 preciseY
      then (w\<lparr> m_ScrollDistance :=
                fsub binary32 (m_ScrollDistance w)
                  (fmul binary32 (m_ZoomSpeed w) (fconvert binary32 (m_DeltaTime w))) \<rparr>, [])
      else if fless preciseY 0
      then (w\<lparr> m_ScrollDistance :=
                fadd binary32 (m_ScrollDistance w)
                  (fmul binary32 (m_ZoomSpeed w) (fconvert binary32 (m_DeltaTime w))) \<rparr>, [])
      else (w, []))"
| "handle_event SDL_OTHEREVENT w = (w, [])"

text \<open>\<open>FirstUpdate\<close> drains the queue; the argument is the queue's content, oldest first.\<close>

fun FirstUpdate :: "SDL_Event list \<Rightarrow> Window \<Rightarrow> Window \<times> gl_call list" where
  "FirstUpdate [] w = (w, [])"
| "FirstUpdate (ev # evs) w =
     (let (w1, c1) = handle_event ev w;
          (w2, c2) = FirstUpdate evs w1
      in (w2, c1 @ c2))"

text \<open>The body of both range-for loops of \<open>SecondUpdate\<close>: two \<open>if\<close>s in sequence.\<close>

definition decay :: "KeyState \<Rightarrow> KeyState" where
  "decay s =
     (let s1 = (if s = JustPressed then Down else s)
      in if s1 = JustReleased then Released else s1)"

text \<open>The range-for visits every entry of the map once; entries do not interact.\<close>

definition decay_entries :: "('k \<rightharpoonup> KeyState) \<Rightarrow> ('k \<rightharpoonup> KeyState)" where
  "decay_entries m = (\<lambda>k. map_option decay (m k))"

definition SecondUpdate :: "Window \<Rightarrow> Window" where
  "SecondUpdate w =
     (let w1 = w\<lparr> m_Keys := decay_entries (m_Keys w) \<rparr>;
          w2 = w1\<lparr> m_MouseButtons := decay_entries (m_MouseButtons w1) \<rparr>
      in w2\<lparr> m_IsResized := False, m_MouseRelX := 0, m_MouseRelY := 0 \<rparr>)"

definition CloseWindow :: "Window \<Rightarrow> Window" where
  "CloseWindow w = w\<lparr> m_IsOpen := False \<rparr>"

text \<open>
  \<open>m[key]\<close> of \<open>std::unordered_map\<close>: a key that is absent is inserted with a
  value-initialised \<open>KeyState\<close>, the enumerator 0, and that entry is returned.
\<close>

definition subscript :: "('k \<rightharpoonup> KeyState) \<Rightarrow> 'k \<Rightarrow> KeyState \<times> ('k \<rightharpoonup> KeyState)" where
  "subscript m key =
     (case m key of
        Some s \<Rightarrow> (s, m)
      | None \<Rightarrow> (JustPressed, m(key \<mapsto> JustPressed)))"

definition CheckKeyUp :: "SDL_Scancode \<Rightarrow> Window \<Rightarrow> bool \<times> Window" where
  "CheckKeyUp key w =
     (let (s, m) = subscript (m_Keys w) key in (s = JustReleased, w\<lparr> m_Keys := m \<rparr>))"

definition CheckKeyDown :: "SDL_Scancode \<Rightarrow> Window \<Rightarrow> bool \<times> Window" where
  "CheckKeyDown key w =
     (let (s, m) = subscript (m_Keys w) key in (s = Down, w\<lparr> m_Keys := m \<rparr>))"

definition CheckMouseButtonUp :: "uint8_t \<Rightarrow> Window \<Rightarrow> bool \<times> Window" where
  "CheckMouseButtonUp key w =
     (let (s, m) = subscript (m_MouseButtons w) key
      in (s = JustReleased, w\<lparr> m_MouseButtons := m \<rparr>))"

definition CheckMouseButtonDown :: "uint8_t \<Rightarrow> Window \<Rightarrow> bool \<times> Window" where
  "CheckMouseButtonDown key w =
     (let (s, m) = subscript (m_MouseButtons w) key
      in (s = Down, w\<lparr> m_MouseButtons := m \<rparr>))"

definition GetScrollDistance :: "Window \<Rightarrow> float" where
  "GetScrollDistance w = m_ScrollDistance w"

definition GetRelMousePos :: "Window \<Rightarrow> float \<times> float" where
  "GetRelMousePos w = (m_MouseRelX w, m_MouseRelY w)"

definition GetMousePos :: "Window \<Rightarrow> float \<times> float" where
  "GetMousePos w = (m_MousePosX w, m_MousePosY w)"

definition GetResized :: "Window \<Rightarrow> bool" where
  "GetResized w = m_IsResized w"

definition IsOpen :: "Window \<Rightarrow> bool" where
  "IsOpen w = (m_IsOpen w = True)"

section \<open>Shader: the uniform-location cache\<close>

record Shader =
  m_ID_Shader :: nat
  m_UniformLocations :: "string \<rightharpoonup> int"

text \<open>
  What \<open>glGetUniformLocation(program, name)\<close> answers; the driver's sentinel for a name
  that the program does not have is \<open>-1\<close>.
\<close>

type_synonym uniform_oracle = "nat \<Rightarrow> string \<Rightarrow> int"

text \<open>
  The constructor, given the name \<open>glCreateProgram\<close> returns.  Its compile and link
  calls write no field; the cache starts empty.
\<close>

definition Shader_init :: "nat \<Rightarrow> Shader" where
  "Shader_init program = \<lparr> m_ID_Shader = program, m_UniformLocations = Map.empty \<rparr>"

definition Shader_Use :: "Shader \<Rightarrow> gl_call list" where
  "Shader_Use sh = [GlUseProgram (m_ID_Shader sh)]"

definition Shader_Unuse :: "Shader \<Rightarrow> gl_call list" where
  "Shader_Unuse sh = [GlUseProgram 0]"

text \<open>\<open>std::map::insert\<close> keeps an entry that is already there.\<close>

definition map_insert :: "('k \<rightharpoonup> 'v) \<Rightarrow> 'k \<Rightarrow> 'v \<Rightarrow> ('k \<rightharpoonup> 'v)" where
  "map_insert m k v = (case m k of Some _ \<Rightarrow> m | None \<Rightarrow> m(k \<mapsto> v))"

definition GetUniformLocation ::
    "uniform_oracle \<Rightarrow> string \<Rightarrow> Shader \<Rightarrow> int \<times> Shader \<times> gl_call list" where
  "GetUniformLocation drv name sh =
     (case m_UniformLocations sh name of
        Some cached \<Rightarrow> (cached, sh, [])
      | None \<Rightarrow>
          let location = drv (m_ID_Shader sh) name
          in (location,
              sh\<lparr> m_UniformLocations := map_insert (m_UniformLocations sh) name location \<rparr>,
              [GlGetUniformLocation (m_ID_Shader sh) name]))"

text \<open>
  The setters: \<open>Use()\<close>, the location lookup, the upload.  Each takes the function that
  builds the upload from the location.
\<close>

definition set_uniform ::
    "uniform_oracle \<Rightarrow> string \<Rightarrow> (int \<Rightarrow> gl_call) \<Rightarrow> Shader \<Rightarrow> Shader \<times> gl_call list" where
  "set_uniform drv name upload sh =
     (let (location, sh1, queried) = GetUniformLocation drv name sh
      in (sh1, Shader_Use sh @ queried @ [upload location]))"

definition SetMat4 ::
    "uniform_oracle \<Rightarrow> string \<Rightarrow> int \<Rightarrow> bool \<Rightarrow> Transform \<Rightarrow> Shader \<Rightarrow> Shader \<times> gl_call list" where
  "SetMat4 drv name count transposed v = set_uniform drv name (\<lambda>l. GlUniformMatrix4fv l count transposed v)"

definition SetVec4 ::
    "uniform_oracle \<Rightarrow> string \<Rightarrow> int \<Rightarrow> float \<times> float \<times> float \<times> float \<Rightarrow> Shader \<Rightarrow> Shader \<times> gl_call list" where
  "SetVec4 drv name count v = set_uniform drv name (\<lambda>l. GlUniform4fv l count v)"

definition SetVec3 ::
    "uniform_oracle \<Rightarrow> string \<Rightarrow> int \<Rightarrow> vec3 \<Rightarrow> Shader \<Rightarrow> Shader \<times> gl_call list" where
  "SetVec3 drv name count v = set_uniform drv name (\<lambda>l. GlUniform3fv l count v)"

definition SetVec2 ::
    "uniform_oracle \<Rightarrow> string \<Rightarrow> int \<Rightarrow> vec2 \<Rightarrow> Shader \<Rightarrow> Shader \<times> gl_call list" where
  "SetVec2 drv name count v = set_uniform drv name (\<lambda>l. GlUniform2fv l count v)"

definition SetFloat ::
    "uniform_oracle \<Rightarrow> string \<Rightarrow> float \<Rightarrow> Shader \<Rightarrow> Shader \<times> gl_call list" where
  "SetFloat drv name v = set_uniform drv name (\<lambda>l. GlUniform1f l v)"

definition SetInt ::
    "uniform_oracle \<Rightarrow> string \<Rightarrow> int \<Rightarrow> Shader \<Rightarrow> Shader \<times> gl_call list" where
  "SetInt drv name v = set_uniform drv name (\<lambda>l. GlUniform1i l v)"

definition SetBool ::
    "uniform_oracle \<Rightarrow> string \<Rightarrow> bool \<Rightarrow> Shader \<Rightarrow> Shader \<times> gl_call list" where
  "SetBool drv name v = set_uniform drv name (\<lambda>l. GlUniform1i l (if v then 1 else 0))"

text \<open>
  A run of lookups on one shader, each against what the driver answers at that moment.
  Every operation of the class that touches the cache is such a lookup.
\<close>

fun lookups :: "(uniform_oracle \<times> string) list \<Rightarrow> Shader \<Rightarrow> Shader" where
  "lookups [] sh = sh"
| "lookups ((drv, name) # qs) sh = lookups qs (fst (snd (GetUniformLocation drv name sh)))"

section \<open>Texture\<close>

record Texture =
  m_ID_Texture :: nat
  m_Width_Texture :: int
  m_Height_Texture :: int
  m_Channels :: int
  m_Type :: TextureType

definition GL_TEXTURE0 :: nat where
  "GL_TEXTURE0 = 33984"

definition Texture_Bind :: "nat \<Rightarrow> Texture \<Rightarrow> gl_call list" where
  "Texture_Bind slot t = [GlActiveTexture (GL_TEXTURE0 + slot), GlBindTexture (m_Type t) (m_ID_Texture t)]"

definition Texture_Unbind :: "Texture \<Rightarrow> gl_call list" where
  "Texture_Unbind t = [GlBindTexture (m_Type t) 0]"

section \<open>Buffer objects\<close>

record VertexBufferObject =
  m_ID_VBO :: nat
  m_Usage_VBO :: BufferUsage
  m_Size_VBO :: nat
  m_VertexCount :: nat

text \<open>
  The constructors take the name \<open>glGenBuffers\<close> writes to \<open>m_ID\<close>.  A member the
  constructor does not mention keeps its default member initialiser, 0.
\<close>

definition VertexBufferObject_init ::
    "nat \<Rightarrow> Vertex list \<Rightarrow> BufferUsage \<Rightarrow> VertexBufferObject \<times> gl_call list" where
  "VertexBufferObject_init gen vertices usage =
     (let sz = length vertices * sizeof_Vertex
      in (\<lparr> m_ID_VBO = gen, m_Usage_VBO = usage, m_Size_VBO = sz,
             m_VertexCount = length vertices \<rparr>,
          [GlGenBuffers gen, GlBindBuffer GL_ARRAY_BUFFER gen,
           GlBufferData GL_ARRAY_BUFFER sz (VertexData vertices) usage]))"

definition VertexBufferObject_init_empty :: "nat \<Rightarrow> VertexBufferObject \<times> gl_call list" where
  "VertexBufferObject_init_empty gen =
     (\<lparr> m_ID_VBO = gen, m_Usage_VBO = Empty, m_Size_VBO = 0, m_VertexCount = 0 \<rparr>,
      [GlGenBuffers gen])"

text \<open>
  The move constructor: the new object and what is left of \<open>other\<close>.  Its initialiser
  list names \<open>m_ID\<close> and \<open>m_Usage\<close> only.
\<close>

definition VertexBufferObject_move :: "VertexBufferObject \<Rightarrow> VertexBufferObject \<times> VertexBufferObject" where
  "VertexBufferObject_move other =
     (\<lparr> m_ID_VBO = m_ID_VBO other, m_Usage_VBO = m_Usage_VBO other, m_Size_VBO = 0,
         m_VertexCount = 0 \<rparr>,
      other\<lparr> m_ID_VBO := 0, m_Usage_VBO := Empty \<rparr>)"

text \<open>
  Move assignment compares addresses (\<open>this != &other\<close>), so the two objects live in a
  store, addressed by number.
\<close>

definition VertexBufferObject_move_assign ::
    "nat \<Rightarrow> nat \<Rightarrow> (nat \<Rightarrow> VertexBufferObject) \<Rightarrow> (nat \<Rightarrow> VertexBufferObject) \<times> gl_call list" where
  "VertexBufferObject_move_assign this other st =
     (if this \<noteq> other
      then (st(this := (st this)\<lparr> m_VertexCount := m_VertexCount (st other),
                                 m_Usage_VBO := m_Usage_VBO (st other),
                                 m_ID_VBO := m_ID_VBO (st other) \<rparr>,
               other := (st other)\<lparr> m_ID_VBO := 0 \<rparr>),
            [GlDeleteBuffers (m_ID_VBO (st this))])
      else (st, []))"

definition VertexBufferObject_Use :: "VertexBufferObject \<Rightarrow> gl_call list" where
  "VertexBufferObject_Use vbo = [GlBindBuffer GL_ARRAY_BUFFER (m_ID_VBO vbo)]"

definition VertexBufferObject_Unuse :: "VertexBufferObject \<Rightarrow> gl_call list" where
  "VertexBufferObject_Unuse vbo = [GlBindBuffer GL_ARRAY_BUFFER 0]"

definition VertexBufferObject_UpdateVBO ::
    "Vertex list \<Rightarrow> VertexBufferObject \<Rightarrow> VertexBufferObject \<times> gl_call list" where
  "VertexBufferObject_UpdateVBO vertices vbo =
     (let newSize = length vertices * sizeof_Vertex;
          vbo1 = vbo\<lparr> m_VertexCount := length vertices \<rparr>
      in if newSize = m_Size_VBO vbo1
         then (vbo1,
               VertexBufferObject_Use vbo @
               [GlBufferSubData GL_ARRAY_BUFFER 0 newSize (VertexData vertices)])
         else (vbo1\<lparr> m_Size_VBO := newSize \<rparr>,
               VertexBufferObject_Use vbo @
               [GlBufferData GL_ARRAY_BUFFER newSize (VertexData vertices) (m_Usage_VBO vbo1)]))"

definition GetVertexCount :: "VertexBufferObject \<Rightarrow> nat" where
  "GetVertexCount vbo = m_VertexCount vbo"

record ElementBufferObject =
  m_ID_EBO :: nat
  m_Usage_EBO :: BufferUsage
  m_Size_EBO :: nat
  m_IndexCount :: nat

definition ElementBufferObject_init ::
    "nat \<Rightarrow> 32 word list \<Rightarrow> BufferUsage \<Rightarrow> ElementBufferObject \<times> gl_call list" where
  "ElementBufferObject_init gen indices usage =
     (let sz = length indices * sizeof_unsigned_int
      in (\<lparr> m_ID_EBO = gen, m_Usage_EBO = usage, m_Size_EBO = sz,
             m_IndexCount = length indices \<rparr>,
          [GlGenBuffers gen, GlBindBuffer GL_ELEMENT_ARRAY_BUFFER gen,
           GlBufferData GL_ELEMENT_ARRAY_BUFFER sz (IndexData indices) usage]))"

definition ElementBufferObject_init_empty :: "nat \<Rightarrow> ElementBufferObject \<times> gl_call list" where
  "ElementBufferObject_init_empty gen =
     (\<lparr> m_ID_EBO = gen, m_Usage_EBO = Empty, m_Size_EBO = 0, m_IndexCount = 0 \<rparr>,
      [GlGenBuffers gen])"

definition ElementBufferObject_move :: "ElementBufferObject \<Rightarrow> ElementBufferObject \<times> ElementBufferObject" where
  "ElementBufferObject_move other =
     (\<lparr> m_ID_EBO = m_ID_EBO other, m_Usage_EBO = m_Usage_EBO other, m_Size_EBO = 0,
         m_IndexCount = 0 \<rparr>,
      other\<lparr> m_ID_EBO := 0, m_Usage_EBO := Empty \<rparr>)"

definition ElementBufferObject_Use :: "ElementBufferObject \<Rightarrow> gl_call list" where
  "ElementBufferObject_Use ebo = [GlBindBuffer GL_ELEMENT_ARRAY_BUFFER (m_ID_EBO ebo)]"

definition ElementBufferObject_UpdateVBO ::
    "32 word list \<Rightarrow> ElementBufferObject \<Rightarrow> ElementBufferObject \<times> gl_call list" where
  "ElementBufferObject_UpdateVBO indices ebo =
     (let newSize = length indices * sizeof_unsigned_int;
          ebo1 = ebo\<lparr> m_IndexCount := length indices \<rparr>
      in if newSize = m_Size_EBO ebo1
         then (ebo1,
               ElementBufferObject_Use ebo @
               [GlBufferSubData GL_ELEMENT_ARRAY_BUFFER 0 newSize (IndexData indices)])
         else (ebo1\<lparr> m_Size_EBO := newSize \<rparr>,
               ElementBufferObject_Use ebo @
               [GlBufferData GL_ELEMENT_ARRAY_BUFFER newSize (IndexData indices) (m_Usage_EBO ebo1)]))"

definition GetIndexCount :: "ElementBufferObject \<Rightarrow> nat" where
  "GetIndexCount ebo = m_IndexCount ebo"

record VertexArrayObject =
  m_ID_VAO :: nat

definition VertexArrayObject_init :: "nat \<Rightarrow> VertexArrayObject \<times> gl_call list" where
  "VertexArrayObject_init gen = (\<lparr> m_ID_VAO = gen \<rparr>, [GlGenVertexArrays gen])"

definition VertexArrayObject_Use :: "VertexArrayObject \<Rightarrow> gl_call list" where
  "VertexArrayObject_Use vao = [GlBindVertexArray (m_ID_VAO vao)]"

definition VertexArrayObject_Unuse :: "VertexArrayObject \<Rightarrow> gl_call list" where
  "VertexArrayObject_Unuse vao = [GlBindVertexArray 0]"

text \<open>\<open>LinkAttrib\<close>; the component type is \<open>GL_FLOAT\<close> at every call of the header.\<close>

definition LinkAttrib ::
    "VertexBufferObject \<Rightarrow> nat \<Rightarrow> nat \<Rightarrow> bool \<Rightarrow> nat \<Rightarrow> nat \<Rightarrow> VertexArrayObject \<Rightarrow> gl_call list" where
  "LinkAttrib vbo index sz normalized stride pointer vao =
     VertexArrayObject_Use vao @ VertexBufferObject_Use vbo @
     [GlEnableVertexAttribArray index, GlVertexAttribPointer index sz normalized stride pointer]"

section \<open>Renderable and GameObject\<close>

text \<open>A \<open>std::unique_ptr\<close> member is \<open>None\<close> when it holds no object.\<close>

record Renderable =
  m_VAO :: "VertexArrayObject option"
  m_VBO :: "VertexBufferObject option"
  m_EBO :: "ElementBufferObject option"
  m_Vertices :: "Vertex list"
  m_Indices :: "32 word list"

definition link_attribs :: "VertexBufferObject \<Rightarrow> VertexArrayObject \<Rightarrow> gl_call list" where
  "link_attribs vbo vao =
     LinkAttrib vbo 0 3 False sizeof_Vertex 0 vao @
     LinkAttrib vbo 1 3 False sizeof_Vertex 12 vao @
     LinkAttrib vbo 2 3 False sizeof_Vertex 24 vao @
     LinkAttrib vbo 3 2 False sizeof_Vertex 36 vao"

definition Renderable_init_empty :: "nat \<Rightarrow> Renderable \<times> gl_call list" where
  "Renderable_init_empty vao_gen =
     (let (vao, c) = VertexArrayObject_init vao_gen
      in (\<lparr> m_VAO = Some vao, m_VBO = None, m_EBO = None, m_Vertices = [], m_Indices = [] \<rparr>, c))"

definition Renderable_init ::
    "nat \<Rightarrow> nat \<Rightarrow> Vertex list \<Rightarrow> BufferUsage \<Rightarrow> Renderable \<times> gl_call list" where
  "Renderable_init vao_gen vbo_gen vertices vboUsage =
     (let (vao, c1) = VertexArrayObject_init vao_gen;
          (vbo, c2) = VertexBufferObject_init vbo_gen vertices vboUsage
      in (\<lparr> m_VAO = Some vao, m_VBO = Some vbo, m_EBO = None, m_Vertices = vertices,
             m_Indices = [] \<rparr>,
          c1 @ c2 @ VertexArrayObject_Use vao @ VertexBufferObject_Use vbo @
          link_attribs vbo vao @ VertexArrayObject_Unuse vao))"

definition Renderable_init_indexed ::
    "nat \<Rightarrow> nat \<Rightarrow> nat \<Rightarrow> Vertex list \<Rightarrow> BufferUsage \<Rightarrow> 32 word list \<Rightarrow> BufferUsage
       \<Rightarrow> Renderable \<times> gl_call list" where
  "Renderable_init_indexed vao_gen vbo_gen ebo_gen vertices vboUsage indices eboUsage =
     (let (vao, c1) = VertexArrayObject_init vao_gen;
          (vbo, c2) = VertexBufferObject_init vbo_gen vertices vboUsage;
          (ebo, c3) =
            (if length indices > 0
             then (let (e, c) = ElementBufferObject_init ebo_gen indices eboUsage
                   in (Some e, c @ ElementBufferObject_Use e))
             else (None, []))
      in (\<lparr> m_VAO = Some vao, m_VBO = Some vbo, m_EBO = ebo, m_Vertices = vertices,
             m_Indices = indices \<rparr>,
          c1 @ c2 @ VertexArrayObject_Use vao @ c3 @ VertexBufferObject_Use vbo @
          link_attribs vbo vao @ VertexArrayObject_Unuse vao))"

text \<open>
  \<open>GetVAO\<close> and \<open>GetVBO\<close> return a reference to \<open>*ptr.get()\<close>: with no object held that
  is a null dereference.  \<open>GetEBO\<close> returns the pointer itself.
\<close>

definition GetVAO :: "Renderable \<Rightarrow> error + VertexArrayObject" where
  "GetVAO r = (case m_VAO r of None \<Rightarrow> Inl NullDereference | Some vao \<Rightarrow> Inr vao)"

definition GetVBO :: "Renderable \<Rightarrow> error + VertexBufferObject" where
  "GetVBO r = (case m_VBO r of None \<Rightarrow> Inl NullDereference | Some vbo \<Rightarrow> Inr vbo)"

definition GetEBO :: "Renderable \<Rightarrow> ElementBufferObject option" where
  "GetEBO r = m_EBO r"

record GameObject =
  m_Transform :: Transform
  m_Renderable :: "Renderable option"
  m_Texture :: "Texture option"

definition GameObject_init :: "Transform \<Rightarrow> GameObject" where
  "GameObject_init transform = \<lparr> m_Transform = transform, m_Renderable = None, m_Texture = None \<rparr>"

definition SetRenderable :: "Renderable option \<Rightarrow> GameObject \<Rightarrow> GameObject" where
  "SetRenderable renderable go = go\<lparr> m_Renderable := renderable \<rparr>"

definition SetTexture :: "Texture option \<Rightarrow> GameObject \<Rightarrow> GameObject" where
  "SetTexture texture go = go\<lparr> m_Texture := texture \<rparr>"

text \<open>
  The draw statement of \<open>Render\<close>.  The condition is
  \<open>GetEBO()->GetIndexCount() > 0 && GetEBO() != nullptr\<close>, evaluated left to right: the
  member call through the pointer comes first, the test of the pointer second.
\<close>

definition draw :: "RenderMode \<Rightarrow> Renderable \<Rightarrow> error + gl_call list" where
  "draw renderMode r =
     (case GetEBO r of
        None \<Rightarrow> Inl NullDereference
      | Some ebo \<Rightarrow>
          if GetIndexCount ebo > 0 \<and> GetEBO r \<noteq> None
          then Inr [GlDrawElements renderMode (GetIndexCount ebo)]
          else (case GetVBO r of
                  Inl e \<Rightarrow> Inl e
                | Inr vbo \<Rightarrow> Inr [GlDrawArrays renderMode 0 (GetVertexCount vbo)]))"

text \<open>
  \<open>Render\<close>: the object, the shader behind the pointer and the driver calls, or the
  fault.  A null \<open>Shader*\<close> or \<open>shared_ptr\<close> is \<open>None\<close>.
\<close>

definition Render ::
    "uniform_oracle \<Rightarrow> Shader option \<Rightarrow> string \<Rightarrow> string \<Rightarrow> RenderMode \<Rightarrow> GameObject
       \<Rightarrow> error + (GameObject \<times> Shader option \<times> gl_call list)" where
  "Render drv shader modelName sampler2DName renderMode go =
     (case (m_Renderable go, shader) of
        (None, _) \<Rightarrow> Inr (go, shader, [])
      | (Some r, None) \<Rightarrow> Inr (go, shader, [])
      | (Some r, Some sh) \<Rightarrow>
          let c1 = Shader_Use sh;
              (sh1, c2) = SetMat4 drv modelName 1 False (m_Transform go) sh;
              (sh2, c3) =
                (case m_Texture go of
                   None \<Rightarrow> (sh1, [])
                 | Some t \<Rightarrow>
                     (let (s, c) = SetInt drv sampler2DName 0 sh1 in (s, Texture_Bind 0 t @ c)))
          in (case GetVAO r of
                Inl e \<Rightarrow> Inl e
              | Inr vao \<Rightarrow>
                  (case draw renderMode r of
                     Inl e \<Rightarrow> Inl e
                   | Inr c5 \<Rightarrow>
                       let c4 = VertexArrayObject_Use vao;
                           c6 = VertexArrayObject_Unuse vao;
                           c7 = (case m_Texture go of None \<Rightarrow> [] | Some t \<Rightarrow> Texture_Unbind t);
                           c8 = Shader_Unuse sh2
                       in Inr (go, Some sh2, c1 @ c2 @ c3 @ c4 @ c5 @ c6 @ c7 @ c8))))"

section \<open>Call sequences and sample objects\<close>

text \<open>
  The calls an application makes on a window between construction and destruction, and
  the state they leave.  A query is performed for its effect on the maps; its answer is
  the first component of the query function itself.
\<close>

datatype Window_call =
    Call_FirstUpdate "SDL_Event list"
  | Call_SecondUpdate
  | Call_UpdateDeltaTime "64 word" "64 word"
  | Call_CloseWindow
  | Call_CheckKeyUp SDL_Scancode
  | Call_CheckKeyDown SDL_Scancode
  | Call_CheckMouseButtonUp uint8_t
  | Call_CheckMouseButtonDown uint8_t

fun perform :: "Window_call \<Rightarrow> Window \<Rightarrow> Window" where
  "perform (Call_FirstUpdate evs) w = fst (FirstUpdate evs w)"
| "perform Call_SecondUpdate w = SecondUpdate w"
| "perform (Call_UpdateDeltaTime counter frequency) w = UpdateDeltaTime counter frequency w"
| "perform Call_CloseWindow w = CloseWindow w"
| "perform (Call_CheckKeyUp key) w = snd (CheckKeyUp key w)"
| "perform (Call_CheckKeyDown key) w = snd (CheckKeyDown key w)"
| "perform (Call_CheckMouseButtonUp key) w = snd (CheckMouseButtonUp key w)"
| "perform (Call_CheckMouseButtonDown key) w = snd (CheckMouseButtonDown key w)"

fun performs :: "Window_call list \<Rightarrow> Window \<Rightarrow> Window" where
  "performs [] w = w"
| "performs (c # cs) w = performs cs (perform c w)"

text \<open>The events a call polls, and which of them concern a given code.\<close>

fun polled :: "Window_call \<Rightarrow> SDL_Event list" where
  "polled (Call_FirstUpdate evs) = evs"
| "polled _ = []"

fun key_event :: "SDL_Scancode \<Rightarrow> SDL_Event \<Rightarrow> bool" where
  "key_event k (SDL_KEYDOWN sc) = (sc = k)"
| "key_event k (SDL_KEYUP sc) = (sc = k)"
| "key_event k _ = False"

fun button_event :: "uint8_t \<Rightarrow> SDL_Event \<Rightarrow> bool" where
  "button_event b (SDL_MOUSEBUTTONDOWN x) = (x = b)"
| "button_event b (SDL_MOUSEBUTTONUP x) = (x = b)"
| "button_event b _ = False"

fun key_release :: "SDL_Scancode \<Rightarrow> SDL_Event \<Rightarrow> bool" where
  "key_release k (SDL_KEYUP sc) = (sc = k)"
| "key_release k _ = False"

fun button_release :: "uint8_t \<Rightarrow> SDL_Event \<Rightarrow> bool" where
  "button_release b (SDL_MOUSEBUTTONUP x) = (x = b)"
| "button_release b _ = False"

definition quiet_for_key :: "SDL_Scancode \<Rightarrow> Window_call list \<Rightarrow> bool" where
  "quiet_for_key k cs = list_all (\<lambda>c. list_all (\<lambda>ev. \<not> key_event k ev) (polled c)) cs"

definition quiet_for_button :: "uint8_t \<Rightarrow> Window_call list \<Rightarrow> bool" where
  "quiet_for_button b cs = list_all (\<lambda>c. list_all (\<lambda>ev. \<not> button_event b ev) (polled c)) cs"

definition no_key_release :: "SDL_Scancode \<Rightarrow> Window_call list \<Rightarrow> bool" where
  "no_key_release k cs = list_all (\<lambda>c. list_all (\<lambda>ev. \<not> key_release k ev) (polled c)) cs"

definition no_button_release :: "uint8_t \<Rightarrow> Window_call list \<Rightarrow> bool" where
  "no_button_release b cs = list_all (\<lambda>c. list_all (\<lambda>ev. \<not> button_release b ev) (polled c)) cs"

text \<open>A code is held while its state is \<open>JustPressed\<close> or \<open>Down\<close>.\<close>

definition held :: "KeyState option \<Rightarrow> bool" where
  "held s = (s = Some JustPressed \<or> s = Some Down)"

text \<open>A window as the constructor leaves it, and three states reached from it.\<close>

definition startup :: sdl_startup where
  "startup = \<lparr> SDL_Init_result = 0, SDL_CreateWindow_result = 1, SDL_GL_CreateContext_result = 1,
     gladLoadGLLoader_result = True, SDL_GL_GetDrawableSize_result = (800, 600),
     SDL_GetPerformanceCounter_result = 0 \<rparr>"

definition fresh_window :: Window where
  "fresh_window = fst (projr (Window_init 800 600 startup))"

definition pressed_window :: Window where
  "pressed_window = fst (FirstUpdate [SDL_KEYDOWN 4, SDL_MOUSEBUTTONDOWN 1] fresh_window)"

definition released_window :: Window where
  "released_window = fst (FirstUpdate [SDL_KEYUP 4, SDL_MOUSEBUTTONUP 1] fresh_window)"

definition timed_window :: Window where
  "timed_window = UpdateDeltaTime 1 10 fresh_window"

text \<open>
  A window that took one wheel event in a frame of 16 ticks at 1000 ticks a second and is
  now in a frame of 100 ticks.
\<close>

definition scrolled_window :: Window where
  "scrolled_window =
     UpdateDeltaTime 116 1000
       (fst (FirstUpdate [SDL_MOUSEWHEEL (Finite (- 1))] (UpdateDeltaTime 16 1000 fresh_window)))"

text \<open>A frame in which key 4 repeats and is queried, then an empty frame.\<close>

definition repeat_frames :: "Window_call list" where
  "repeat_frames =
     [Call_FirstUpdate [SDL_KEYDOWN 4, SDL_MOUSEBUTTONDOWN 1, SDL_KEYUP 5], Call_CheckKeyDown 4,
      Call_SecondUpdate, Call_FirstUpdate [], Call_CheckMouseButtonUp 1]"

definition sample_vertex :: Vertex where
  "sample_vertex =
     \<lparr> aPos = (0, 0, 0), aColor = (Finite 1, Finite 1, Finite 1), aNormal = (0, 0, Finite 1),
       aUV = (0, 0) \<rparr>"

definition sample_transform :: Transform where
  "sample_transform =
     \<lparr> Position = (0, 0, 0), Scale = (Finite 1, Finite 1, Finite 1), Rotation = (0, 0, 0) \<rparr>"

text \<open>A driver whose program has the one uniform \<open>model\<close>, at location 7.\<close>

definition sample_driver :: uniform_oracle where
  "sample_driver program name = (if name = ''model'' then 7 else - 1)"

text \<open>A mesh built by the constructor that takes no indices.\<close>

definition indexless :: Renderable where
  "indexless = fst (Renderable_init 1 2 [sample_vertex, sample_vertex, sample_vertex] StaticDraw)"

definition three_vertices :: VertexBufferObject where
  "three_vertices =
     fst (VertexBufferObject_init 1 [sample_vertex, sample_vertex, sample_vertex] StaticDraw)"

definition two_vertices :: VertexBufferObject where
  "two_vertices = fst (VertexBufferObject_init 2 [sample_vertex, sample_vertex] DynamicDraw)"

definition three_indices :: ElementBufferObject where
  "three_indices = fst (ElementBufferObject_init 5 [2, 1, 0] StaticDraw)"

text \<open>A store with \<open>two_vertices\<close> at address 0 and \<open>three_vertices\<close> elsewhere.\<close>

definition two_buffers :: "nat \<Rightarrow> VertexBufferObject" where
  "two_buffers a = (if a = 0 then two_vertices else three_vertices)"

text \<open>
  The object at address 0 after \<open>two = std::move(three)\<close> on that store, and the calls the
  driver has then seen for the buffer named 1, which the object now holds.
\<close>

definition reassigned :: VertexBufferObject where
  "reassigned = fst (VertexBufferObject_move_assign 0 1 two_buffers) 0"

definition reassigned_history :: "gl_call list" where
  "reassigned_history =
     snd (VertexBufferObject_init 1 [sample_vertex, sample_vertex, sample_vertex] StaticDraw) @
     snd (VertexBufferObject_move_assign 0 1 two_buffers)"

text \<open>
  A run of updates on one vertex buffer, from the buffer and the driver calls issued for
  it so far to the buffer and the calls issued in the end.
\<close>

fun updates ::
    "Vertex list list \<Rightarrow> VertexBufferObject \<times> gl_call list \<Rightarrow> VertexBufferObject \<times> gl_call list" where
  "updates [] st = st"
| "updates (vs # rest) (vbo, issued) =
     (let (vbo1, c) = VertexBufferObject_UpdateVBO vs vbo in updates rest (vbo1, issued @ c))"

text \<open>
  The byte size of the data store the driver holds after the calls issued for one
  buffer: that of the last \<open>glBufferData\<close> among them, which allocates the store anew.
\<close>

fun allocated_size :: "nat option \<Rightarrow> gl_call list \<Rightarrow> nat option" where
  "allocated_size a [] = a"
| "allocated_size a (GlBufferData target n payload usage # cs) = allocated_size (Some n) cs"
| "allocated_size a (c # cs) = allocated_size a cs"

section \<open>Properties of the arithmetic\<close>

lemmas ieee_eval =
  fl_def binary32_def binary64_def ilog2_def pow2_def round_half_even_def compute_floorlog
  fsub_def zero_ieee_def Let_def

lemma pow2_pos: "0 < pow2 e"
  by (simp add: pow2_def)

lemma ilog2_bounds:
  assumes "0 < x"
  shows "pow2 (ilog2 x) \<le> x \<and> x < pow2 (ilog2 x + 1)"
proof (cases "1 \<le> x")
  case True
  define n where "n = nat \<lfloor>x\<rfloor>"
  define k where "k = floorlog 2 n"
  have "1 \<le> \<lfloor>x\<rfloor>" using True by linarith
  then have rn: "real n = of_int \<lfloor>x\<rfloor>" "0 < n" by (simp_all add: n_def)
  have n: "0 < n" "real n \<le> x" "x < real n + 1"
    unfolding rn(1) using rn(2) by (simp, linarith, linarith)
  have b: "2 ^ (k - 1) \<le> n" "n < 2 ^ k"
    using floorlog_bounds [of n 2] n(1) by (simp_all add: k_def)
  have k: "0 < k" using b(2) n(1) by (cases k) simp_all
  have il: "ilog2 x = int k - 1"
    using True by (simp add: ilog2_def n_def k_def)
  have "(2::real) ^ (k - 1) \<le> real n"
    using of_nat_mono [OF b(1), where 'a = real] by simp
  then have lo: "2 ^ (k - 1) \<le> x" using n(2) by linarith
  have "n + 1 \<le> 2 ^ k" using b(2) by simp
  then have "real n + 1 \<le> 2 ^ k"
    using of_nat_mono [of "n + 1" "2 ^ k", where 'a = real] by simp
  then have hi: "x < 2 ^ k" using n(3) by linarith
  have "nat (int k - 1) = k - 1" "nat (int k) = k" by simp_all
  then show ?thesis using lo hi k by (simp add: il pow2_def)
next
  case False
  define y where "y = 1 / x"
  define m where "m = nat (\<lceil>y\<rceil> - 1)"
  define k where "k = floorlog 2 m"
  have y: "1 < y" using False assms by (simp add: y_def)
  then have c: "2 \<le> \<lceil>y\<rceil>" by linarith
  have rm: "real m = of_int \<lceil>y\<rceil> - 1" "0 < m" using c by (simp_all add: m_def)
  have m: "0 < m" "real m < y" "y \<le> real m + 1"
    unfolding rm(1) using rm(2) by (simp, linarith, linarith)
  have b: "2 ^ (k - 1) \<le> m" "m < 2 ^ k"
    using floorlog_bounds [of m 2] m(1) by (simp_all add: k_def)
  have k: "0 < k" using b(2) m(1) by (cases k) simp_all
  have il: "ilog2 x = - int k"
    using False by (simp add: ilog2_def m_def k_def y_def)
  have "(2::real) ^ (k - 1) \<le> real m"
    using of_nat_mono [OF b(1), where 'a = real] by simp
  then have lo: "2 ^ (k - 1) < y" using m(2) by linarith
  have "m + 1 \<le> 2 ^ k" using b(2) by simp
  then have "real m + 1 \<le> 2 ^ k"
    using of_nat_mono [of "m + 1" "2 ^ k", where 'a = real] by simp
  then have hi: "y \<le> 2 ^ k" using m(3) by linarith
  have x: "x = 1 / y" using assms by (simp add: y_def)
  have 1: "1 / 2 ^ k \<le> x"
    unfolding x using hi y by (simp add: field_simps)
  have 2: "x < 1 / 2 ^ (k - 1)"
    unfolding x using lo y by (simp add: field_simps)
  have 3: "pow2 (- int k) = 1 / 2 ^ k" using k by (simp add: pow2_def)
  have 4: "pow2 (- int k + 1) = 1 / 2 ^ (k - 1)"
  proof (cases "k = 1")
    case True
    then show ?thesis by (simp add: pow2_def)
  next
    case False
    with k have "\<not> 0 \<le> - int k + 1" "nat (- (- int k + 1)) = k - 1" by simp_all
    then show ?thesis by (simp add: pow2_def)
  qed
  show ?thesis unfolding il 3 4 using 1 2 by blast
qed

lemma round_half_even_near: "\<bar>of_int (round_half_even y) - y\<bar> \<le> 1 / 2"
  by (auto simp: round_half_even_def Let_def; linarith)

lemma fless_asym: "fless a b \<Longrightarrow> \<not> fless b a"
  by (cases a; cases b) auto

text \<open>The values the wheel arithmetic meets at an elapsed time of a tenth.\<close>

lemma double_tenth: "fl binary64 (1 / 10) = Finite (7205759403792794 / 2 ^ 56)"
  by (simp add: ieee_eval)

lemma float_tenth:
  "fl binary32 (1 / 10) = Finite (13421773 / 2 ^ 27)"
  "fconvert binary32 (fl binary64 (1 / 10)) = Finite (13421773 / 2 ^ 27)"
  by (simp_all add: ieee_eval)

lemma float_step: "fmul binary32 (Finite 550) (Finite (13421773 / 2 ^ 27)) = Finite 55"
  by (simp add: ieee_eval)

section \<open>Properties of the input state\<close>

lemma release_range_apply:
  "release_range cast n m k = (if \<exists>i<n. cast i = k then Some Released else m k)"
  unfolding release_range_def
proof (induction n)
  case 0
  then show ?case by simp
next
  case (Suc n)
  then show ?case by (auto simp: less_Suc_eq)
qed

lemma button_range: "(\<exists>i<5. (of_nat i :: 8 word) = b) \<longleftrightarrow> b < 5"
proof
  assume "\<exists>i<5. (of_nat i :: 8 word) = b"
  then obtain i where i: "i < 5" "b = of_nat i" by auto
  then have "unat b = i" by (simp add: unat_of_nat)
  with i show "b < 5" by (simp add: word_less_nat_alt)
next
  assume "b < 5"
  then have "unat b < 5" by (simp add: word_less_nat_alt)
  moreover have "of_nat (unat b) = b" by simp
  ultimately show "\<exists>i<5. (of_nat i :: 8 word) = b" by blast
qed

text \<open>What the constructor initialises: scancodes below 512, button codes 0 to 4.\<close>

lemma Window_init_startup:
  "Window_init 800 600 startup = Inr (fresh_window, [GlViewport 0 0 800 600])"
  by (simp add: fresh_window_def Window_init_def startup_def)

lemma fresh_keys:
  "m_Keys fresh_window k = (if k < SDL_NUM_SCANCODES then Some Released else None)"
  by (simp add: fresh_window_def Window_init_def startup_def release_range_apply)

lemma fresh_buttons:
  "m_MouseButtons fresh_window b = (if b < 5 then Some Released else None)"
  using button_range [of b]
  by (simp add: fresh_window_def Window_init_def startup_def release_range_apply)

lemma decay_simps [simp]:
  "decay JustPressed = Down" "decay JustReleased = Released"
  "decay Down = Down" "decay Released = Released"
  by (simp_all add: decay_def)

lemma SecondUpdate_fields:
  "m_Keys (SecondUpdate w) k = map_option decay (m_Keys w k)"
  "m_MouseButtons (SecondUpdate w) b = map_option decay (m_MouseButtons w b)"
  by (simp_all add: SecondUpdate_def decay_entries_def Let_def)

lemma handle_event_keys:
  "m_Keys (fst (handle_event ev w)) k =
     (case ev of
        SDL_KEYDOWN sc \<Rightarrow> if sc = k then Some JustPressed else m_Keys w k
      | SDL_KEYUP sc \<Rightarrow> if sc = k then Some JustReleased else m_Keys w k
      | _ \<Rightarrow> m_Keys w k)"
  by (cases ev) simp_all

lemma handle_event_buttons:
  "m_MouseButtons (fst (handle_event ev w)) b =
     (case ev of
        SDL_MOUSEBUTTONDOWN x \<Rightarrow> if x = b then Some JustPressed else m_MouseButtons w b
      | SDL_MOUSEBUTTONUP x \<Rightarrow> if x = b then Some JustReleased else m_MouseButtons w b
      | _ \<Rightarrow> m_MouseButtons w b)"
  by (cases ev) simp_all

lemma FirstUpdate_Cons:
  "fst (FirstUpdate (ev # evs) w) = fst (FirstUpdate evs (fst (handle_event ev w)))"
  by (simp add: split_beta Let_def)

lemma FirstUpdate_keys_untouched:
  "list_all (\<lambda>ev. \<not> key_event k ev) evs \<Longrightarrow> m_Keys (fst (FirstUpdate evs w)) k = m_Keys w k"
proof (induction evs arbitrary: w)
  case Nil
  then show ?case by simp
next
  case (Cons ev evs)
  then have "m_Keys (fst (handle_event ev w)) k = m_Keys w k"
    by (cases ev) (auto simp: handle_event_keys)
  with Cons show ?case by (simp only: FirstUpdate_Cons) simp
qed

lemma FirstUpdate_buttons_untouched:
  "list_all (\<lambda>ev. \<not> button_event b ev) evs \<Longrightarrow>
     m_MouseButtons (fst (FirstUpdate evs w)) b = m_MouseButtons w b"
proof (induction evs arbitrary: w)
  case Nil
  then show ?case by simp
next
  case (Cons ev evs)
  then have "m_MouseButtons (fst (handle_event ev w)) b = m_MouseButtons w b"
    by (cases ev) (auto simp: handle_event_buttons)
  with Cons show ?case by (simp only: FirstUpdate_Cons) simp
qed

lemma FirstUpdate_key_held:
  "list_all (\<lambda>ev. \<not> key_release k ev) evs \<Longrightarrow> held (m_Keys w k) \<Longrightarrow>
     held (m_Keys (fst (FirstUpdate evs w)) k)"
proof (induction evs arbitrary: w)
  case Nil
  then show ?case by simp
next
  case (Cons ev evs)
  then have "held (m_Keys (fst (handle_event ev w)) k)"
    by (cases ev) (auto simp: handle_event_keys held_def)
  with Cons show ?case by (simp only: FirstUpdate_Cons) simp
qed

lemma FirstUpdate_button_held:
  "list_all (\<lambda>ev. \<not> button_release b ev) evs \<Longrightarrow> held (m_MouseButtons w b) \<Longrightarrow>
     held (m_MouseButtons (fst (FirstUpdate evs w)) b)"
proof (induction evs arbitrary: w)
  case Nil
  then show ?case by simp
next
  case (Cons ev evs)
  then have "held (m_MouseButtons (fst (handle_event ev w)) b)"
    by (cases ev) (auto simp: handle_event_buttons held_def)
  with Cons show ?case by (simp only: FirstUpdate_Cons) simp
qed

text \<open>A query changes the map only at a code that has no entry.\<close>

lemma subscript_present: "m k = Some s \<Longrightarrow> subscript m k = (s, m)"
  by (simp add: subscript_def)

lemma subscript_other: "k' \<noteq> k \<Longrightarrow> snd (subscript m k') k = m k"
  by (simp add: subscript_def split: option.splits)

lemma subscript_keeps: "m k = Some s \<Longrightarrow> snd (subscript m k') k = Some s"
  by (cases "k' = k") (simp_all add: subscript_present subscript_other)

lemma query_keys:
  "m_Keys w k = Some s \<Longrightarrow> m_Keys (snd (CheckKeyUp key w)) k = Some s"
  "m_Keys w k = Some s \<Longrightarrow> m_Keys (snd (CheckKeyDown key w)) k = Some s"
  "m_Keys (snd (CheckMouseButtonUp b w)) = m_Keys w"
  "m_Keys (snd (CheckMouseButtonDown b w)) = m_Keys w"
  by (simp_all add: CheckKeyUp_def CheckKeyDown_def CheckMouseButtonUp_def
        CheckMouseButtonDown_def split_beta subscript_keeps)

lemma query_buttons:
  "m_MouseButtons w b = Some s \<Longrightarrow> m_MouseButtons (snd (CheckMouseButtonUp key w)) b = Some s"
  "m_MouseButtons w b = Some s \<Longrightarrow> m_MouseButtons (snd (CheckMouseButtonDown key w)) b = Some s"
  "m_MouseButtons (snd (CheckKeyUp k w)) = m_MouseButtons w"
  "m_MouseButtons (snd (CheckKeyDown k w)) = m_MouseButtons w"
  by (simp_all add: CheckKeyUp_def CheckKeyDown_def CheckMouseButtonUp_def
        CheckMouseButtonDown_def split_beta subscript_keeps)

lemma perform_key_released:
  assumes "m_Keys w k = Some Released" and "list_all (\<lambda>ev. \<not> key_event k ev) (polled c)"
  shows "m_Keys (perform c w) k = Some Released"
  using assms
  by (cases c)
     (simp_all add: FirstUpdate_keys_untouched SecondUpdate_fields UpdateDeltaTime_def
        CloseWindow_def query_keys Let_def)

lemma performs_key_released:
  "m_Keys w k = Some Released \<Longrightarrow> quiet_for_key k cs \<Longrightarrow>
     m_Keys (performs cs w) k = Some Released"
proof (induction cs arbitrary: w)
  case Nil
  then show ?case by simp
next
  case (Cons c cs)
  then have "m_Keys (perform c w) k = Some Released"
    by (simp add: perform_key_released quiet_for_key_def)
  with Cons show ?case by (simp add: quiet_for_key_def)
qed

lemma perform_button_released:
  assumes "m_MouseButtons w b = Some Released"
    and "list_all (\<lambda>ev. \<not> button_event b ev) (polled c)"
  shows "m_MouseButtons (perform c w) b = Some Released"
  using assms
  by (cases c)
     (simp_all add: FirstUpdate_buttons_untouched SecondUpdate_fields UpdateDeltaTime_def
        CloseWindow_def query_buttons Let_def)

lemma performs_button_released:
  "m_MouseButtons w b = Some Released \<Longrightarrow> quiet_for_button b cs \<Longrightarrow>
     m_MouseButtons (performs cs w) b = Some Released"
proof (induction cs arbitrary: w)
  case Nil
  then show ?case by simp
next
  case (Cons c cs)
  then have "m_MouseButtons (perform c w) b = Some Released"
    by (simp add: perform_button_released quiet_for_button_def)
  with Cons show ?case by (simp add: quiet_for_button_def)
qed

lemma held_decay: "held s \<Longrightarrow> map_option decay s = Some Down"
  by (auto simp: held_def)

lemma perform_key_held:
  assumes "held (m_Keys w k)" and "list_all (\<lambda>ev. \<not> key_release k ev) (polled c)"
  shows "held (m_Keys (perform c w) k)"
proof (cases c)
  case (Call_FirstUpdate evs)
  with assms show ?thesis by (simp add: FirstUpdate_key_held)
next
  case Call_SecondUpdate
  with assms(1) show ?thesis by (simp add: SecondUpdate_fields held_decay) (simp add: held_def)
next
  case (Call_UpdateDeltaTime counter frequency)
  with assms(1) show ?thesis by (simp add: UpdateDeltaTime_def Let_def)
next
  case Call_CloseWindow
  with assms(1) show ?thesis by (simp add: CloseWindow_def)
next
  case (Call_CheckKeyUp key)
  with assms(1) show ?thesis by (auto simp: held_def query_keys)
next
  case (Call_CheckKeyDown key)
  with assms(1) show ?thesis by (auto simp: held_def query_keys)
next
  case (Call_CheckMouseButtonUp key)
  with assms(1) show ?thesis by (simp add: query_keys)
next
  case (Call_CheckMouseButtonDown key)
  with assms(1) show ?thesis by (simp add: query_keys)
qed

lemma performs_key_held:
  "held (m_Keys w k) \<Longrightarrow> no_key_release k cs \<Longrightarrow> held (m_Keys (performs cs w) k)"
proof (induction cs arbitrary: w)
  case Nil
  then show ?case by simp
next
  case (Cons c cs)
  then have "held (m_Keys (perform c w) k)"
    by (simp add: perform_key_held no_key_release_def)
  with Cons show ?case by (simp add: no_key_release_def)
qed

lemma perform_button_held:
  assumes "held (m_MouseButtons w b)" and "list_all (\<lambda>ev. \<not> button_release b ev) (polled c)"
  shows "held (m_MouseButtons (perform c w) b)"
proof (cases c)
  case (Call_FirstUpdate evs)
  with assms show ?thesis by (simp add: FirstUpdate_button_held)
next
  case Call_SecondUpdate
  with assms(1) show ?thesis by (simp add: SecondUpdate_fields held_decay) (simp add: held_def)
next
  case (Call_UpdateDeltaTime counter frequency)
  with assms(1) show ?thesis by (simp add: UpdateDeltaTime_def Let_def)
next
  case Call_CloseWindow
  with assms(1) show ?thesis by (simp add: CloseWindow_def)
next
  case (Call_CheckKeyUp key)
  with assms(1) show ?thesis by (simp add: query_buttons)
next
  case (Call_CheckKeyDown key)
  with assms(1) show ?thesis by (simp add: query_buttons)
next
  case (Call_CheckMouseButtonUp key)
  with assms(1) show ?thesis by (auto simp: held_def query_buttons)
next
  case (Call_CheckMouseButtonDown key)
  with assms(1) show ?thesis by (auto simp: held_def query_buttons)
qed

lemma performs_button_held:
  "held (m_MouseButtons w b) \<Longrightarrow> no_button_release b cs \<Longrightarrow>
     held (m_MouseButtons (performs cs w) b)"
proof (induction cs arbitrary: w)
  case Nil
  then show ?case by simp
next
  case (Cons c cs)
  then have "held (m_MouseButtons (perform c w) b)"
    by (simp add: perform_button_held no_button_release_def)
  with Cons show ?case by (simp add: no_button_release_def)
qed

lemma SecondUpdate_iterate_Down:
  "m_Keys w k = Some Down \<Longrightarrow> m_Keys ((SecondUpdate ^^ n) w) k = Some Down"
  by (induction n) (simp_all add: SecondUpdate_fields)

lemma SecondUpdate_iterate_Down_button:
  "m_MouseButtons w b = Some Down \<Longrightarrow> m_MouseButtons ((SecondUpdate ^^ n) w) b = Some Down"
  by (induction n) (simp_all add: SecondUpdate_fields)

lemma SecondUpdate_iterate_scroll:
  "m_ScrollDistance ((SecondUpdate ^^ n) w) = m_ScrollDistance w"
  by (induction n) (simp_all add: SecondUpdate_def Let_def)

lemma pressed_window_state:
  "m_Keys pressed_window 4 = Some JustPressed"
  "m_MouseButtons pressed_window 1 = Some JustPressed"
  by (simp_all add: pressed_window_def split_beta)

lemma released_window_state:
  "m_Keys released_window 4 = Some JustReleased"
  "m_MouseButtons released_window 1 = Some JustReleased"
  by (simp_all add: released_window_def split_beta)

lemma timed_window_state:
  "m_DeltaTime timed_window = fl binary64 (1 / 10)"
  "GetDeltaTime timed_window = fl binary32 (1 / 10)"
  "m_ZoomSpeed timed_window = Finite 550"
  "m_ScrollDistance timed_window = Finite 0"
  by (simp_all add: timed_window_def UpdateDeltaTime_def GetDeltaTime_def fresh_window_def
        Window_init_def startup_def ieee_eval)

lemma scrolled_window_state:
  "GetDeltaTime scrolled_window = fl binary32 (1 / 10)"
  "m_ZoomSpeed scrolled_window = Finite 550"
  "m_ScrollDistance scrolled_window = Finite (9227469 / 2 ^ 20)"
  by (simp_all add: scrolled_window_def UpdateDeltaTime_def GetDeltaTime_def fresh_window_def
        Window_init_def startup_def split_beta ieee_eval)

text \<open>A frequency of 0 leaves an infinite or undefined elapsed time, as the division does.\<close>

lemma UpdateDeltaTime_zero_frequency:
  "m_DeltaTime (UpdateDeltaTime 5 0 fresh_window) = PlusInfinity"
  "m_DeltaTime (UpdateDeltaTime 0 0 fresh_window) = NaN"
  by (simp_all add: UpdateDeltaTime_def fresh_window_def Window_init_def startup_def ieee_eval)

lemma wheel_step:
  "GetDeltaTime w = fl binary32 (1 / 10) \<Longrightarrow> m_ZoomSpeed w = Finite 550 \<Longrightarrow>
     fmul binary32 (m_ZoomSpeed w) (fconvert binary32 (m_DeltaTime w)) = Finite 55"
  using float_step by (simp add: GetDeltaTime_def float_tenth)

lemma wheel_event_scroll:
  assumes "GetDeltaTime w = fl binary32 (1 / 10)" and "m_ZoomSpeed w = Finite 550"
  shows "fless preciseY 0 \<Longrightarrow>
      m_ScrollDistance (fst (FirstUpdate [SDL_MOUSEWHEEL preciseY] w)) =
        fadd binary32 (m_ScrollDistance w) (Finite 55)"
    and "fless 0 preciseY \<Longrightarrow>
      m_ScrollDistance (fst (FirstUpdate [SDL_MOUSEWHEEL preciseY] w)) =
        fsub binary32 (m_ScrollDistance w) (Finite 55)"
proof -
  have step: "fmul binary32 (m_ZoomSpeed w) (fconvert binary32 (m_DeltaTime w)) = Finite 55"
    using assms by (rule wheel_step)
  show "m_ScrollDistance (fst (FirstUpdate [SDL_MOUSEWHEEL preciseY] w)) =
      fadd binary32 (m_ScrollDistance w) (Finite 55)" if "fless preciseY 0"
    using that fless_asym [OF that] by (simp add: split_beta step)
  show "m_ScrollDistance (fst (FirstUpdate [SDL_MOUSEWHEEL preciseY] w)) =
      fsub binary32 (m_ScrollDistance w) (Finite 55)" if "fless 0 preciseY"
    using that by (simp add: split_beta step)
qed

lemma repeat_frames_no_release:
  "no_key_release 4 repeat_frames" "no_button_release 1 repeat_frames"
  by (simp_all add: no_key_release_def no_button_release_def repeat_frames_def)

subsection \<open>The state-decay pass\<close>

text \<open>
  Claim C1.  A key code or mouse-button code whose state is \<open>JustPressed\<close> when
  \<open>SecondUpdate\<close> (EndFrame) is called has the state \<open>Down\<close> after that one call.  It is
  still \<open>Down\<close> after any number of further \<open>SecondUpdate\<close> calls, and also after the
  \<open>SecondUpdate\<close> that ends any run of calls in which no release event for the code is
  polled.  A state that is \<open>JustReleased\<close> is \<open>Released\<close> after one \<open>SecondUpdate\<close> call.
\<close>

theorem SecondUpdate_decays_just_states:
  "(m_Keys w k = Some JustPressed \<longrightarrow>
      m_Keys (SecondUpdate w) k = Some Down \<and>
      (\<forall>n. m_Keys ((SecondUpdate ^^ n) (SecondUpdate w)) k = Some Down) \<and>
      (no_key_release k cs \<longrightarrow>
         m_Keys (SecondUpdate (performs cs (SecondUpdate w))) k = Some Down)) \<and>
   (m_MouseButtons w b = Some JustPressed \<longrightarrow>
      m_MouseButtons (SecondUpdate w) b = Some Down \<and>
      (\<forall>n. m_MouseButtons ((SecondUpdate ^^ n) (SecondUpdate w)) b = Some Down) \<and>
      (no_button_release b cs \<longrightarrow>
         m_MouseButtons (SecondUpdate (performs cs (SecondUpdate w))) b = Some Down)) \<and>
   (m_Keys w k = Some JustReleased \<longrightarrow> m_Keys (SecondUpdate w) k = Some Released) \<and>
   (m_MouseButtons w b = Some JustReleased \<longrightarrow> m_MouseButtons (SecondUpdate w) b = Some Released)"
proof -
  have key: "m_Keys (SecondUpdate (performs cs (SecondUpdate w))) k = Some Down"
    if "m_Keys w k = Some JustPressed" and "no_key_release k cs"
  proof -
    from that(1) have "held (m_Keys (SecondUpdate w) k)"
      by (simp add: SecondUpdate_fields held_def)
    then have "held (m_Keys (performs cs (SecondUpdate w)) k)"
      using that(2) by (rule performs_key_held)
    then show ?thesis by (simp add: SecondUpdate_fields held_decay)
  qed
  have button: "m_MouseButtons (SecondUpdate (performs cs (SecondUpdate w))) b = Some Down"
    if "m_MouseButtons w b = Some JustPressed" and "no_button_release b cs"
  proof -
    from that(1) have "held (m_MouseButtons (SecondUpdate w) b)"
      by (simp add: SecondUpdate_fields held_def)
    then have "held (m_MouseButtons (performs cs (SecondUpdate w)) b)"
      using that(2) by (rule performs_button_held)
    then show ?thesis by (simp add: SecondUpdate_fields held_decay)
  qed
  show ?thesis
    using key button
    by (simp add: SecondUpdate_fields SecondUpdate_iterate_Down SecondUpdate_iterate_Down_button)
qed

theorem SecondUpdate_decays_just_states_witness:
  "m_Keys pressed_window 4 = Some JustPressed \<and>
   m_Keys (SecondUpdate pressed_window) 4 = Some Down \<and>
   m_Keys ((SecondUpdate ^^ 3) (SecondUpdate pressed_window)) 4 = Some Down \<and>
   no_key_release 4 repeat_frames \<and>
   m_Keys (SecondUpdate (performs repeat_frames (SecondUpdate pressed_window))) 4 = Some Down \<and>
   m_MouseButtons pressed_window 1 = Some JustPressed \<and>
   m_MouseButtons (SecondUpdate pressed_window) 1 = Some Down \<and>
   m_MouseButtons ((SecondUpdate ^^ 3) (SecondUpdate pressed_window)) 1 = Some Down \<and>
   no_button_release 1 repeat_frames \<and>
   m_MouseButtons (SecondUpdate (performs repeat_frames (SecondUpdate pressed_window))) 1 =
     Some Down \<and>
   m_Keys released_window 4 = Some JustReleased \<and>
   m_Keys (SecondUpdate released_window) 4 = Some Released \<and>
   m_MouseButtons released_window 1 = Some JustReleased \<and>
   m_MouseButtons (SecondUpdate released_window) 1 = Some Released"
  using SecondUpdate_decays_just_states [of pressed_window 4 repeat_frames 1]
        SecondUpdate_decays_just_states [of released_window 4 repeat_frames 1]
  by (simp add: pressed_window_state released_window_state repeat_frames_no_release)

subsection \<open>Codes no event has touched\<close>

text \<open>
  For the codes the constructor initialises (scancodes below \<open>SDL_NUM_SCANCODES\<close>,
  button codes 0 to 4) all four queries answer false after any run of calls that polls no
  event for the code.
\<close>

lemma initialised_codes_stay_released:
  assumes "k < SDL_NUM_SCANCODES" and "b < 5"
    and "quiet_for_key k cs" and "quiet_for_button b cs"
  shows "fst (CheckKeyUp k (performs cs fresh_window)) = False"
    and "fst (CheckKeyDown k (performs cs fresh_window)) = False"
    and "fst (CheckMouseButtonUp b (performs cs fresh_window)) = False"
    and "fst (CheckMouseButtonDown b (performs cs fresh_window)) = False"
proof -
  have "m_Keys fresh_window k = Some Released"
    using assms(1) by (simp add: fresh_keys)
  then have keys: "m_Keys (performs cs fresh_window) k = Some Released"
    using assms(3) by (rule performs_key_released)
  have "m_MouseButtons fresh_window b = Some Released"
    using assms(2) by (simp add: fresh_buttons)
  then have buttons: "m_MouseButtons (performs cs fresh_window) b = Some Released"
    using assms(4) by (rule performs_button_released)
  show "fst (CheckKeyUp k (performs cs fresh_window)) = False"
    and "fst (CheckKeyDown k (performs cs fresh_window)) = False"
    using keys by (simp_all add: CheckKeyUp_def CheckKeyDown_def subscript_present)
  show "fst (CheckMouseButtonUp b (performs cs fresh_window)) = False"
    and "fst (CheckMouseButtonDown b (performs cs fresh_window)) = False"
    using buttons
    by (simp_all add: CheckMouseButtonUp_def CheckMouseButtonDown_def subscript_present)
qed

text \<open>
  Claim C2.  For every key code and every mouse-button code that no input event has
  touched, \<open>CheckKeyUp\<close>, \<open>CheckKeyDown\<close>, \<open>CheckMouseButtonUp\<close> and
  \<open>CheckMouseButtonDown\<close> answer false, across any sequence of frame calls and repeated
  queries.  The code does not do this for button code 5 (SDL's second extra button),
  which the constructor's loop over 0 to 4 leaves without an entry: on a window that has
  polled no event at all, the first two queries answer false, the query inserts an entry
  with the enumerator 0, \<open>JustPressed\<close>, the next \<open>SecondUpdate\<close> turns it into \<open>Down\<close>,
  and \<open>CheckMouseButtonDown\<close> then answers true.
\<close>

theorem unset_button_reads_down:
  "m_MouseButtons fresh_window 5 = None \<and>
   fst (CheckMouseButtonUp 5 fresh_window) = False \<and>
   fst (CheckMouseButtonDown 5 fresh_window) = False \<and>
   m_MouseButtons (snd (CheckMouseButtonDown 5 fresh_window)) 5 = Some JustPressed \<and>
   fst (CheckMouseButtonDown 5 (SecondUpdate (snd (CheckMouseButtonDown 5 fresh_window)))) = True"
  by (simp add: CheckMouseButtonDown_def CheckMouseButtonUp_def subscript_def fresh_buttons
        SecondUpdate_fields)

subsection \<open>The scroll accumulator\<close>

text \<open>
  Claim C3 says that, with an elapsed time of 0.1 seconds and a scroll rate of 550, one
  wheel event with \<open>preciseY < 0\<close> changes the scroll accumulator by -55 and one with
  \<open>preciseY > 0\<close> changes it by +55.  On the window whose elapsed time is a tenth, whose
  rate is 550 and whose accumulator is 0, the event with \<open>preciseY = -1\<close> leaves the
  accumulator at +55, not at -55.
\<close>

theorem wheel_down_counterexample:
  "GetDeltaTime timed_window = fl binary32 (1 / 10) \<and> m_ZoomSpeed timed_window = Finite 550 \<and>
   m_ScrollDistance timed_window = Finite 0 \<and>
   fless (Finite (- 1)) 0 \<and>
   m_ScrollDistance (fst (FirstUpdate [SDL_MOUSEWHEEL (Finite (- 1))] timed_window)) = Finite 55 \<and>
   m_ScrollDistance (fst (FirstUpdate [SDL_MOUSEWHEEL (Finite (- 1))] timed_window)) \<noteq>
     Finite (- 55)"
  using wheel_event_scroll(1) [OF timed_window_state(2,3), of "Finite (- 1)"]
  by (simp add: timed_window_state ieee_eval)

text \<open>
  The step is 55 exactly, but the sum is rounded to binary32 again: from the accumulator
  9227469 / 2 ^ 20, the float nearest 8.8, a wheel event with \<open>preciseY = -1\<close> moves it by
  55 - 1 / 2 ^ 20.
\<close>

lemma wheel_sum_is_rounded:
  "m_ScrollDistance (fst (FirstUpdate [SDL_MOUSEWHEEL (Finite (- 1))] scrolled_window)) =
     Finite (16724787 / 2 ^ 18) \<and>
   (16724787 / 2 ^ 18 - 9227469 / 2 ^ 20 :: real) = 55 - 1 / 2 ^ 20"
  using wheel_event_scroll(1) [OF scrolled_window_state(1,2), of "Finite (- 1)"]
  by (simp add: scrolled_window_state ieee_eval)

text \<open>
  Claim C3, amended.  In a frame whose elapsed time reads 0.1 as a \<open>float\<close> and with a
  scroll rate of 550, the scroll step is 55.0 exactly; one wheel event with
  \<open>preciseY < 0\<close> sets the scroll accumulator to the binary32 sum of the accumulator and
  55.0, and one with \<open>preciseY > 0\<close> to the binary32 difference of the accumulator and
  55.0, each the exact result rounded to the nearest \<open>float\<close>.  From an accumulator of 0
  that is +55.0 exactly for \<open>preciseY < 0\<close> and -55.0 exactly for \<open>preciseY > 0\<close>.
\<close>

theorem wheel_scroll_amount:
  "GetDeltaTime w = fl binary32 (1 / 10) \<Longrightarrow> m_ZoomSpeed w = Finite 550 \<Longrightarrow>
     (fless preciseY 0 \<longrightarrow>
        m_ScrollDistance (fst (FirstUpdate [SDL_MOUSEWHEEL preciseY] w)) =
          fadd binary32 (m_ScrollDistance w) (Finite 55)) \<and>
     (fless 0 preciseY \<longrightarrow>
        m_ScrollDistance (fst (FirstUpdate [SDL_MOUSEWHEEL preciseY] w)) =
          fsub binary32 (m_ScrollDistance w) (Finite 55)) \<and>
     (m_ScrollDistance w = Finite 0 \<longrightarrow>
        (fless preciseY 0 \<longrightarrow>
           m_ScrollDistance (fst (FirstUpdate [SDL_MOUSEWHEEL preciseY] w)) = Finite 55) \<and>
        (fless 0 preciseY \<longrightarrow>
           m_ScrollDistance (fst (FirstUpdate [SDL_MOUSEWHEEL preciseY] w)) = Finite (- 55)))"
proof -
  assume dt: "GetDeltaTime w = fl binary32 (1 / 10)" and rate: "m_ZoomSpeed w = Finite 550"
  note scroll = wheel_event_scroll [OF dt rate, of preciseY]
  have zero: "fadd binary32 (Finite 0) (Finite 55) = Finite 55"
    "fsub binary32 (Finite 0) (Finite 55) = Finite (- 55)"
    by (simp_all add: ieee_eval)
  show ?thesis using scroll zero by auto
qed

theorem wheel_scroll_amount_witness:
  "GetDeltaTime timed_window = fl binary32 (1 / 10) \<and> m_ZoomSpeed timed_window = Finite 550 \<and>
   m_ScrollDistance timed_window = Finite 0 \<and>
   fless (Finite (- 1)) 0 \<and>
   m_ScrollDistance (fst (FirstUpdate [SDL_MOUSEWHEEL (Finite (- 1))] timed_window)) = Finite 55 \<and>
   fless 0 (Finite 1) \<and>
   m_ScrollDistance (fst (FirstUpdate [SDL_MOUSEWHEEL (Finite 1)] timed_window)) = Finite (- 55) \<and>
   GetDeltaTime scrolled_window = fl binary32 (1 / 10) \<and>
   m_ZoomSpeed scrolled_window = Finite 550 \<and>
   m_ScrollDistance (fst (FirstUpdate [SDL_MOUSEWHEEL (Finite (- 1))] scrolled_window)) =
     fadd binary32 (Finite (9227469 / 2 ^ 20)) (Finite 55)"
proof -
  note down = wheel_scroll_amount [OF timed_window_state(2,3), of "Finite (- 1)"]
  note up = wheel_scroll_amount [OF timed_window_state(2,3), of "Finite 1"]
  note rounded = wheel_scroll_amount [OF scrolled_window_state(1,2), of "Finite (- 1)"]
  have sign: "fless (Finite (- 1)) 0" "fless 0 (Finite 1)"
    by (simp_all add: zero_ieee_def)
  have 1: "m_ScrollDistance (fst (FirstUpdate [SDL_MOUSEWHEEL (Finite (- 1))] timed_window)) =
      Finite 55"
    using down sign(1) timed_window_state(4) by blast
  have 2: "m_ScrollDistance (fst (FirstUpdate [SDL_MOUSEWHEEL (Finite 1)] timed_window)) =
      Finite (- 55)"
    using up sign(2) timed_window_state(4) by blast
  have 3: "m_ScrollDistance (fst (FirstUpdate [SDL_MOUSEWHEEL (Finite (- 1))] scrolled_window)) =
      fadd binary32 (Finite (9227469 / 2 ^ 20)) (Finite 55)"
    using rounded sign(1) unfolding scrolled_window_state(3) by blast
  show ?thesis
    using timed_window_state(2,3,4) scrolled_window_state(1,2) sign 1 2 3 by blast
qed

subsection \<open>What \<open>SecondUpdate\<close> leaves alone\<close>

text \<open>
  Claim C8 says that \<open>SecondUpdate\<close> clears the resized flag and both relative
  displacement components and changes nothing else.  It also changes the key map: key 4,
  just pressed, has another state afterwards.
\<close>

theorem SecondUpdate_changes_key_counterexample:
  "m_Keys (SecondUpdate pressed_window) 4 \<noteq> m_Keys pressed_window 4"
  by (simp add: SecondUpdate_fields pressed_window_state)

text \<open>
  Claim C8, amended.  \<open>SecondUpdate\<close> clears the resized flag to false and both relative
  displacement components to zero, and apart from the decay of the key and button states
  it changes nothing else: the scroll accumulator, the absolute mouse position, the width
  and height, the delta time, the last frame time, the scroll rate, the open flag and the
  two handles are unchanged.  So the scroll accumulator persists across any number of
  \<open>SecondUpdate\<close> calls, and the relative displacement reads zero right after one.
\<close>

theorem SecondUpdate_frame:
  "SecondUpdate w =
     w\<lparr> m_Keys := decay_entries (m_Keys w), m_MouseButtons := decay_entries (m_MouseButtons w),
        m_IsResized := False, m_MouseRelX := 0, m_MouseRelY := 0 \<rparr> \<and>
   GetResized (SecondUpdate w) = False \<and>
   GetRelMousePos (SecondUpdate w) = (0, 0) \<and>
   GetScrollDistance (SecondUpdate w) = GetScrollDistance w \<and>
   GetMousePos (SecondUpdate w) = GetMousePos w \<and>
   m_Width (SecondUpdate w) = m_Width w \<and>
   m_Height (SecondUpdate w) = m_Height w \<and>
   m_DeltaTime (SecondUpdate w) = m_DeltaTime w \<and>
   m_LastFrame (SecondUpdate w) = m_LastFrame w \<and>
   m_ZoomSpeed (SecondUpdate w) = m_ZoomSpeed w \<and>
   IsOpen (SecondUpdate w) = IsOpen w \<and>
   window (SecondUpdate w) = window w \<and>
   glContext (SecondUpdate w) = glContext w \<and>
   (\<forall>n. GetScrollDistance ((SecondUpdate ^^ n) w) = GetScrollDistance w)"
  by (simp add: SecondUpdate_iterate_scroll GetScrollDistance_def)
     (simp add: SecondUpdate_def Let_def GetResized_def GetRelMousePos_def GetMousePos_def
        IsOpen_def)

section \<open>Properties of the uniform-location cache\<close>

lemma GetUniformLocation_cached:
  "m_UniformLocations sh name = Some loc \<Longrightarrow> GetUniformLocation drv name sh = (loc, sh, [])"
  by (simp add: GetUniformLocation_def)

lemma GetUniformLocation_first:
  "m_UniformLocations sh name = None \<Longrightarrow>
     GetUniformLocation drv name sh =
       (drv (m_ID_Shader sh) name,
        sh\<lparr> m_UniformLocations := (m_UniformLocations sh)(name \<mapsto> drv (m_ID_Shader sh) name) \<rparr>,
        [GlGetUniformLocation (m_ID_Shader sh) name])"
  by (simp add: GetUniformLocation_def map_insert_def Let_def)

lemma GetUniformLocation_stores:
  "m_UniformLocations (fst (snd (GetUniformLocation drv name sh))) name =
     Some (fst (GetUniformLocation drv name sh))"
  by (cases "m_UniformLocations sh name")
     (simp_all add: GetUniformLocation_cached GetUniformLocation_first)

lemma GetUniformLocation_keeps:
  "m_UniformLocations sh name = Some loc \<Longrightarrow>
     m_UniformLocations (fst (snd (GetUniformLocation drv other sh))) name = Some loc"
  by (cases "m_UniformLocations sh other")
     (auto simp: GetUniformLocation_cached GetUniformLocation_first)

lemma lookups_keeps:
  "m_UniformLocations sh name = Some loc \<Longrightarrow> m_UniformLocations (lookups qs sh) name = Some loc"
proof (induction qs arbitrary: sh)
  case Nil
  then show ?case by simp
next
  case (Cons q qs)
  obtain drv other where q: "q = (drv, other)" by (cases q)
  from Cons.prems
  have "m_UniformLocations (fst (snd (GetUniformLocation drv other sh))) name = Some loc"
    by (rule GetUniformLocation_keeps)
  then show ?case using Cons.IH q by simp
qed

text \<open>Every setter leaves the shader that one lookup of its name leaves.\<close>

lemma set_uniform_lookup: "fst (set_uniform drv name upload sh) = lookups [(drv, name)] sh"
  by (simp add: set_uniform_def split_beta)

text \<open>
  Claim C9.  For every shader and every uniform name: a lookup of a name that is not in
  the cache asks the driver once and returns its answer, whatever it is, the sentinel
  included; after a lookup the cache maps the name to the location returned; and after
  any further lookups, of any names, a lookup of the same name returns that location
  again, asks the driver nothing and leaves the shader as it is, whatever the driver
  would answer by then.
\<close>

theorem uniform_location_cached:
  "(m_UniformLocations sh name = None \<longrightarrow>
      fst (GetUniformLocation drv name sh) = drv (m_ID_Shader sh) name \<and>
      snd (snd (GetUniformLocation drv name sh)) = [GlGetUniformLocation (m_ID_Shader sh) name]) \<and>
   m_UniformLocations (fst (snd (GetUniformLocation drv name sh))) name =
     Some (fst (GetUniformLocation drv name sh)) \<and>
   (\<forall>qs drv'.
      GetUniformLocation drv' name (lookups qs (fst (snd (GetUniformLocation drv name sh)))) =
        (fst (GetUniformLocation drv name sh),
         lookups qs (fst (snd (GetUniformLocation drv name sh))), []))"
proof -
  let ?r = "GetUniformLocation drv name sh"
  have stored: "m_UniformLocations (fst (snd ?r)) name = Some (fst ?r)"
    by (rule GetUniformLocation_stores)
  have "GetUniformLocation drv' name (lookups qs (fst (snd ?r))) =
          (fst ?r, lookups qs (fst (snd ?r)), [])" for qs drv'
    by (rule GetUniformLocation_cached) (rule lookups_keeps [OF stored])
  moreover have "m_UniformLocations sh name = None \<longrightarrow>
      fst ?r = drv (m_ID_Shader sh) name \<and>
      snd (snd ?r) = [GlGetUniformLocation (m_ID_Shader sh) name]"
    by (simp add: GetUniformLocation_first)
  ultimately show ?thesis using stored by blast
qed

theorem uniform_location_cached_witness:
  "m_UniformLocations (Shader_init 3) ''missing'' = None \<and>
   fst (GetUniformLocation sample_driver ''missing'' (Shader_init 3)) = - 1 \<and>
   snd (snd (GetUniformLocation sample_driver ''missing'' (Shader_init 3))) =
     [GlGetUniformLocation 3 ''missing''] \<and>
   fst (GetUniformLocation (\<lambda>p n. 5) ''missing''
          (fst (snd (GetUniformLocation sample_driver ''missing'' (Shader_init 3))))) = - 1 \<and>
   snd (snd (GetUniformLocation (\<lambda>p n. 5) ''missing''
          (fst (snd (GetUniformLocation sample_driver ''missing'' (Shader_init 3)))))) = []"
  using uniform_location_cached [of "Shader_init 3" "''missing''" sample_driver,
          THEN conjunct2, THEN conjunct2, THEN spec, of "[]", THEN spec, of "\<lambda>p n. 5"]
        uniform_location_cached [of "Shader_init 3" "''missing''" sample_driver, THEN conjunct1]
  by (simp add: Shader_init_def sample_driver_def)

section \<open>Properties of the buffer objects\<close>

lemma UpdateVBO_count: "GetVertexCount (fst (VertexBufferObject_UpdateVBO vs vbo)) = length vs"
  by (simp add: VertexBufferObject_UpdateVBO_def GetVertexCount_def Let_def)

lemma updates_snoc:
  "fst (updates (earlier @ [vs]) st) =
     fst (VertexBufferObject_UpdateVBO vs (fst (updates earlier st)))"
proof (induction earlier arbitrary: st)
  case Nil
  then show ?case by (cases st) (simp add: split_beta)
next
  case (Cons a earlier)
  then show ?case by (cases st) (simp add: split_beta)
qed

text \<open>After an update the recorded byte size is that of the sequence just uploaded.\<close>

lemma UpdateVBO_size:
  "m_Size_VBO (fst (VertexBufferObject_UpdateVBO vs vbo)) = length vs * sizeof_Vertex"
  by (simp add: VertexBufferObject_UpdateVBO_def Let_def)

text \<open>
  For a buffer that was constructed from a list and then only updated, the recorded byte
  size \<open>m_Size\<close> is the size of the store the driver holds for it.
\<close>

lemma allocated_size_append:
  "allocated_size a (xs @ ys) = allocated_size (allocated_size a xs) ys"
  by (induction a xs rule: allocated_size.induct) simp_all

lemma init_allocates:
  "allocated_size a (snd (VertexBufferObject_init gen vs usage)) =
     Some (m_Size_VBO (fst (VertexBufferObject_init gen vs usage)))"
  by (simp add: VertexBufferObject_init_def Let_def)

lemma update_allocates:
  "allocated_size a issued = Some (m_Size_VBO vbo) \<Longrightarrow>
     allocated_size a (issued @ snd (VertexBufferObject_UpdateVBO vs vbo)) =
       Some (m_Size_VBO (fst (VertexBufferObject_UpdateVBO vs vbo)))"
  by (simp add: allocated_size_append VertexBufferObject_UpdateVBO_def VertexBufferObject_Use_def
        Let_def)

lemma updates_allocate:
  "allocated_size a issued = Some (m_Size_VBO vbo) \<Longrightarrow>
     allocated_size a (snd (updates us (vbo, issued))) =
       Some (m_Size_VBO (fst (updates us (vbo, issued))))"
proof (induction us arbitrary: vbo issued)
  case Nil
  then show ?case by simp
next
  case (Cons vs us)
  from Cons.prems
  have "allocated_size a (issued @ snd (VertexBufferObject_UpdateVBO vs vbo)) =
          Some (m_Size_VBO (fst (VertexBufferObject_UpdateVBO vs vbo)))"
    by (rule update_allocates)
  then show ?case using Cons.IH by (simp add: split_beta)
qed

lemma recorded_size_is_allocation:
  "allocated_size None (snd (updates us (VertexBufferObject_init gen vs usage))) =
     Some (m_Size_VBO (fst (updates us (VertexBufferObject_init gen vs usage))))"
  using updates_allocate [OF init_allocates, of None us gen vs usage] by simp

text \<open>
  The branch of \<open>UpdateVBO\<close> is on the recorded byte size \<open>m_Size\<close>: with a sequence of
  that byte size it binds the buffer and writes the sequence in place with
  \<open>glBufferSubData\<close>; with another byte size it binds the buffer and reallocates it with
  \<open>glBufferData\<close>, recording the new size.  The element count reported afterwards is the
  length of the new sequence.
\<close>

lemma UpdateVBO_branches:
  "(length vertices * sizeof_Vertex = m_Size_VBO vbo \<longrightarrow>
      VertexBufferObject_UpdateVBO vertices vbo =
        (vbo\<lparr> m_VertexCount := length vertices \<rparr>,
         [GlBindBuffer GL_ARRAY_BUFFER (m_ID_VBO vbo),
          GlBufferSubData GL_ARRAY_BUFFER 0 (m_Size_VBO vbo) (VertexData vertices)])) \<and>
   (length vertices * sizeof_Vertex \<noteq> m_Size_VBO vbo \<longrightarrow>
      VertexBufferObject_UpdateVBO vertices vbo =
        (vbo\<lparr> m_VertexCount := length vertices, m_Size_VBO := length vertices * sizeof_Vertex \<rparr>,
         [GlBindBuffer GL_ARRAY_BUFFER (m_ID_VBO vbo),
          GlBufferData GL_ARRAY_BUFFER (length vertices * sizeof_Vertex) (VertexData vertices)
            (m_Usage_VBO vbo)])) \<and>
   GetVertexCount (fst (VertexBufferObject_UpdateVBO vertices vbo)) = length vertices \<and>
   (length indices * sizeof_unsigned_int = m_Size_EBO ebo \<longrightarrow>
      ElementBufferObject_UpdateVBO indices ebo =
        (ebo\<lparr> m_IndexCount := length indices \<rparr>,
         [GlBindBuffer GL_ELEMENT_ARRAY_BUFFER (m_ID_EBO ebo),
          GlBufferSubData GL_ELEMENT_ARRAY_BUFFER 0 (m_Size_EBO ebo) (IndexData indices)])) \<and>
   (length indices * sizeof_unsigned_int \<noteq> m_Size_EBO ebo \<longrightarrow>
      ElementBufferObject_UpdateVBO indices ebo =
        (ebo\<lparr> m_IndexCount := length indices,
              m_Size_EBO := length indices * sizeof_unsigned_int \<rparr>,
         [GlBindBuffer GL_ELEMENT_ARRAY_BUFFER (m_ID_EBO ebo),
          GlBufferData GL_ELEMENT_ARRAY_BUFFER (length indices * sizeof_unsigned_int)
            (IndexData indices) (m_Usage_EBO ebo)])) \<and>
   GetIndexCount (fst (ElementBufferObject_UpdateVBO indices ebo)) = length indices"
  by (simp add: VertexBufferObject_UpdateVBO_def ElementBufferObject_UpdateVBO_def
        VertexBufferObject_Use_def ElementBufferObject_Use_def GetVertexCount_def
        GetIndexCount_def Let_def)

lemma UpdateVBO_branches_examples:
  "length [sample_vertex, sample_vertex] * sizeof_Vertex = m_Size_VBO two_vertices \<and>
   snd (VertexBufferObject_UpdateVBO [sample_vertex, sample_vertex] two_vertices) =
     [GlBindBuffer GL_ARRAY_BUFFER 2,
      GlBufferSubData GL_ARRAY_BUFFER 0 88 (VertexData [sample_vertex, sample_vertex])] \<and>
   length [sample_vertex] * sizeof_Vertex \<noteq> m_Size_VBO two_vertices \<and>
   snd (VertexBufferObject_UpdateVBO [sample_vertex] two_vertices) =
     [GlBindBuffer GL_ARRAY_BUFFER 2,
      GlBufferData GL_ARRAY_BUFFER 44 (VertexData [sample_vertex]) DynamicDraw] \<and>
   GetVertexCount (fst (VertexBufferObject_UpdateVBO [sample_vertex] two_vertices)) = 1 \<and>
   length [0, 1, 2 :: 32 word] * sizeof_unsigned_int = m_Size_EBO three_indices \<and>
   snd (ElementBufferObject_UpdateVBO [0, 1, 2] three_indices) =
     [GlBindBuffer GL_ELEMENT_ARRAY_BUFFER 5,
      GlBufferSubData GL_ELEMENT_ARRAY_BUFFER 0 12 (IndexData [0, 1, 2])] \<and>
   length [0 :: 32 word] * sizeof_unsigned_int \<noteq> m_Size_EBO three_indices \<and>
   snd (ElementBufferObject_UpdateVBO [0] three_indices) =
     [GlBindBuffer GL_ELEMENT_ARRAY_BUFFER 5,
      GlBufferData GL_ELEMENT_ARRAY_BUFFER 4 (IndexData [0]) StaticDraw]"
  using UpdateVBO_branches [of "[sample_vertex, sample_vertex]" two_vertices "[0, 1, 2]"
          three_indices]
        UpdateVBO_branches [of "[sample_vertex]" two_vertices "[0]" three_indices]
  by (simp add: two_vertices_def three_indices_def VertexBufferObject_init_def
        ElementBufferObject_init_def sizeof_Vertex_def sizeof_unsigned_int_def
        GetVertexCount_def Let_def)

text \<open>
  So for a vertex buffer that was constructed and then only updated, the branch is on the
  size of the store the driver holds.
\<close>

lemma constructed_buffer_update_branches:
  "(allocated_size None (snd (updates us (VertexBufferObject_init gen vs usage))) =
      Some (length vertices * sizeof_Vertex) \<longrightarrow>
    snd (VertexBufferObject_UpdateVBO vertices
           (fst (updates us (VertexBufferObject_init gen vs usage)))) =
      [GlBindBuffer GL_ARRAY_BUFFER
         (m_ID_VBO (fst (updates us (VertexBufferObject_init gen vs usage)))),
       GlBufferSubData GL_ARRAY_BUFFER 0 (length vertices * sizeof_Vertex)
         (VertexData vertices)]) \<and>
   (allocated_size None (snd (updates us (VertexBufferObject_init gen vs usage))) \<noteq>
      Some (length vertices * sizeof_Vertex) \<longrightarrow>
    snd (VertexBufferObject_UpdateVBO vertices
           (fst (updates us (VertexBufferObject_init gen vs usage)))) =
      [GlBindBuffer GL_ARRAY_BUFFER
         (m_ID_VBO (fst (updates us (VertexBufferObject_init gen vs usage)))),
       GlBufferData GL_ARRAY_BUFFER (length vertices * sizeof_Vertex) (VertexData vertices)
         (m_Usage_VBO (fst (updates us (VertexBufferObject_init gen vs usage))))])"
  unfolding recorded_size_is_allocation
  by (simp add: VertexBufferObject_UpdateVBO_def VertexBufferObject_Use_def Let_def)

text \<open>
  Claim C5.  For every vertex or index buffer, \<open>UpdateVBO\<close> with a sequence whose byte
  size equals the currently allocated byte size writes in place without reallocating,
  and with a different byte size reallocates; the element count reported afterwards is
  the length of the new sequence.  The code does not do this for a buffer that a move
  has handed to another object, because the moves leave \<open>m_Size\<close> behind.  After
  \<open>two = std::move(three)\<close> the object holds the buffer named 1, whose store the driver
  allocated with 132 bytes, and records 88 bytes: an update with three vertices, 132
  bytes, reallocates with \<open>glBufferData\<close>, and an update with two vertices, 88 bytes,
  writes in place with \<open>glBufferSubData\<close>.  An index buffer made by the move constructor
  from one of 12 bytes records 0 bytes: an update with three indices, 12 bytes,
  reallocates.
\<close>

theorem moved_buffer_update_follows_stale_size:
  "allocated_size None reassigned_history = Some 132 \<and>
   m_ID_VBO reassigned = 1 \<and>
   m_Size_VBO reassigned = 88 \<and>
   length [sample_vertex, sample_vertex, sample_vertex] * sizeof_Vertex = 132 \<and>
   snd (VertexBufferObject_UpdateVBO [sample_vertex, sample_vertex, sample_vertex] reassigned) =
     [GlBindBuffer GL_ARRAY_BUFFER 1,
      GlBufferData GL_ARRAY_BUFFER 132 (VertexData [sample_vertex, sample_vertex, sample_vertex])
        StaticDraw] \<and>
   length [sample_vertex, sample_vertex] * sizeof_Vertex = 88 \<and>
   snd (VertexBufferObject_UpdateVBO [sample_vertex, sample_vertex] reassigned) =
     [GlBindBuffer GL_ARRAY_BUFFER 1,
      GlBufferSubData GL_ARRAY_BUFFER 0 88 (VertexData [sample_vertex, sample_vertex])] \<and>
   GetVertexCount (fst (VertexBufferObject_UpdateVBO [sample_vertex, sample_vertex] reassigned)) = 2 \<and>
   allocated_size None (snd (ElementBufferObject_init 5 [2, 1, 0] StaticDraw)) = Some 12 \<and>
   m_ID_EBO (fst (ElementBufferObject_move three_indices)) = 5 \<and>
   m_Size_EBO (fst (ElementBufferObject_move three_indices)) = 0 \<and>
   length [0, 1, 2 :: 32 word] * sizeof_unsigned_int = 12 \<and>
   snd (ElementBufferObject_UpdateVBO [0, 1, 2] (fst (ElementBufferObject_move three_indices))) =
     [GlBindBuffer GL_ELEMENT_ARRAY_BUFFER 5,
      GlBufferData GL_ELEMENT_ARRAY_BUFFER 12 (IndexData [0, 1, 2]) StaticDraw]"
  by (simp add: reassigned_def reassigned_history_def two_buffers_def two_vertices_def
        three_vertices_def three_indices_def VertexBufferObject_init_def
        ElementBufferObject_init_def VertexBufferObject_move_assign_def
        ElementBufferObject_move_def VertexBufferObject_UpdateVBO_def
        ElementBufferObject_UpdateVBO_def VertexBufferObject_Use_def ElementBufferObject_Use_def
        GetVertexCount_def sizeof_Vertex_def sizeof_unsigned_int_def Let_def)

text \<open>
  Claim C6.  A vertex buffer constructed from a vertex list reports the length of that
  list as its vertex count; after \<open>UpdateVBO\<close> with another list, directly or after any
  run of earlier updates, it reports the length of the list of the last update.
\<close>

theorem vertex_count_roundtrip:
  "GetVertexCount (fst (VertexBufferObject_init gen vertices usage)) = length vertices \<and>
   GetVertexCount (fst (VertexBufferObject_UpdateVBO updated
      (fst (VertexBufferObject_init gen vertices usage)))) = length updated \<and>
   GetVertexCount (fst (updates (earlier @ [updated])
      (VertexBufferObject_init gen vertices usage))) = length updated"
  by (simp add: updates_snoc UpdateVBO_count)
     (simp add: VertexBufferObject_init_def GetVertexCount_def Let_def)

text \<open>
  Claim C10.  The move constructor of a vertex buffer hands the driver name and the usage
  to the new object and neither the vertex count nor the byte size: the new object
  reports the vertex count 0, which is not the count of a source that holds vertices, and
  records the byte size 0, so \<open>UpdateVBO\<close> on it with a list that is not empty
  reallocates with \<open>glBufferData\<close>.  Move assignment between two distinct objects hands
  over the vertex count and the driver name, and leaves the recorded byte size of the
  target as it was.
\<close>

theorem move_leaves_size_behind:
  "m_ID_VBO (fst (VertexBufferObject_move src)) = m_ID_VBO src \<and>
   m_Usage_VBO (fst (VertexBufferObject_move src)) = m_Usage_VBO src \<and>
   GetVertexCount (fst (VertexBufferObject_move src)) = 0 \<and>
   m_Size_VBO (fst (VertexBufferObject_move src)) = 0 \<and>
   (0 < GetVertexCount src \<longrightarrow>
      GetVertexCount (fst (VertexBufferObject_move src)) \<noteq> GetVertexCount src) \<and>
   (vertices \<noteq> [] \<longrightarrow>
      snd (VertexBufferObject_UpdateVBO vertices (fst (VertexBufferObject_move src))) =
        [GlBindBuffer GL_ARRAY_BUFFER (m_ID_VBO src),
         GlBufferData GL_ARRAY_BUFFER (length vertices * sizeof_Vertex) (VertexData vertices)
           (m_Usage_VBO src)]) \<and>
   (this \<noteq> other \<longrightarrow>
      m_VertexCount (fst (VertexBufferObject_move_assign this other st) this) =
        m_VertexCount (st other) \<and>
      m_ID_VBO (fst (VertexBufferObject_move_assign this other st) this) = m_ID_VBO (st other) \<and>
      m_Size_VBO (fst (VertexBufferObject_move_assign this other st) this) = m_Size_VBO (st this))"
  by (simp add: VertexBufferObject_move_def VertexBufferObject_move_assign_def
        VertexBufferObject_UpdateVBO_def VertexBufferObject_Use_def GetVertexCount_def
        sizeof_Vertex_def Let_def)

theorem move_leaves_size_behind_witness:
  "0 < GetVertexCount three_vertices \<and>
   GetVertexCount (fst (VertexBufferObject_move three_vertices)) = 0 \<and>
   m_Size_VBO (fst (VertexBufferObject_move three_vertices)) = 0 \<and>
   [sample_vertex, sample_vertex, sample_vertex] \<noteq> [] \<and>
   snd (VertexBufferObject_UpdateVBO [sample_vertex, sample_vertex, sample_vertex]
          (fst (VertexBufferObject_move three_vertices))) =
     [GlBindBuffer GL_ARRAY_BUFFER 1,
      GlBufferData GL_ARRAY_BUFFER 132 (VertexData [sample_vertex, sample_vertex, sample_vertex])
        StaticDraw] \<and>
   (0::nat) \<noteq> 1 \<and>
   m_VertexCount (fst (VertexBufferObject_move_assign 0 1 two_buffers) 0) = 3 \<and>
   m_ID_VBO (fst (VertexBufferObject_move_assign 0 1 two_buffers) 0) = 1 \<and>
   m_Size_VBO (fst (VertexBufferObject_move_assign 0 1 two_buffers) 0) = 88 \<and>
   m_Size_VBO (two_buffers 1) = 132"
  using move_leaves_size_behind
          [of three_vertices "[sample_vertex, sample_vertex, sample_vertex]" 0 1 two_buffers]
  by (simp add: three_vertices_def two_vertices_def two_buffers_def VertexBufferObject_init_def
        GetVertexCount_def sizeof_Vertex_def Let_def)

section \<open>Properties of \<open>Render\<close>\<close>

lemma draw_without_EBO: "m_EBO r = None \<Longrightarrow> draw renderMode r = Inl NullDereference"
  by (simp add: draw_def GetEBO_def)

text \<open>With no index buffer \<open>Render\<close> faults whenever it gets past its first test.\<close>

lemma Render_without_EBO:
  "m_Renderable go = Some r \<Longrightarrow> m_EBO r = None \<Longrightarrow>
     Render drv (Some sh) modelName sampler2DName renderMode go = Inl NullDereference"
  by (simp add: Render_def draw_without_EBO GetVAO_def split_beta Let_def
        split: option.splits sum.splits)

text \<open>The draw sized by the vertex count is issued with an index buffer of count 0.\<close>

lemma draw_arrays_reached:
  "m_EBO r = Some ebo \<Longrightarrow> GetIndexCount ebo = 0 \<Longrightarrow> m_VBO r = Some vbo \<Longrightarrow>
     draw renderMode r = Inr [GlDrawArrays renderMode 0 (GetVertexCount vbo)]"
  by (simp add: draw_def GetEBO_def GetVBO_def)

lemma draw_elements_reached:
  "m_EBO r = Some ebo \<Longrightarrow> 0 < GetIndexCount ebo \<Longrightarrow>
     draw renderMode r = Inr [GlDrawElements renderMode (GetIndexCount ebo)]"
  by (simp add: draw_def GetEBO_def)

lemma indexless_EBO: "m_EBO indexless = None"
  by (simp add: indexless_def Renderable_init_def VertexArrayObject_init_def
        VertexBufferObject_init_def Let_def)

text \<open>
  Claim C4.  For a \<open>GameObject\<close> with a \<open>Renderable\<close> and a shader, \<open>Render\<close> never
  dereferences a null index-buffer pointer, and a \<open>Renderable\<close> without an index buffer
  gets the draw sized by its vertex count.  The code does not do this: the draw condition
  calls \<open>GetIndexCount\<close> through the pointer before it tests the pointer, so for the mesh
  built by the constructor that takes no indices \<open>Render\<close> dereferences the null pointer
  and issues no draw.
\<close>

theorem Render_indexless_faults:
  "m_Renderable (SetRenderable (Some indexless) (GameObject_init sample_transform)) = Some indexless \<and>
   GetEBO indexless = None \<and>
   Render sample_driver (Some (Shader_init 3)) ''model'' ''tex'' Triangles
     (SetRenderable (Some indexless) (GameObject_init sample_transform)) = Inl NullDereference"
  by (simp add: Render_without_EBO [where r = indexless] indexless_EBO SetRenderable_def
        GameObject_init_def GetEBO_def)

text \<open>
  Claim C7.  For a \<open>GameObject\<close> with no \<open>Renderable\<close>, or with a null shader pointer,
  \<open>Render\<close> returns without a fault, makes no driver call, and leaves the object, with
  its transform, and the shader as they were; with no driver call the pipeline bindings
  stay as they were too.
\<close>

theorem Render_noop:
  "m_Renderable go = None \<or> shader = None \<Longrightarrow>
     Render drv shader modelName sampler2DName renderMode go = Inr (go, shader, [])"
  by (auto simp: Render_def split: option.splits)

theorem Render_noop_witness:
  "m_Renderable (GameObject_init sample_transform) = None \<and>
   Render sample_driver (Some (Shader_init 3)) ''model'' ''tex'' Triangles
     (GameObject_init sample_transform) =
     Inr (GameObject_init sample_transform, Some (Shader_init 3), []) \<and>
   Render sample_driver None ''model'' ''tex'' Triangles
     (SetRenderable (Some indexless) (GameObject_init sample_transform)) =
     Inr (SetRenderable (Some indexless) (GameObject_init sample_transform), None, [])"
  using Render_noop [of "GameObject_init sample_transform" "Some (Shader_init 3)" sample_driver
          "''model''" "''tex''" Triangles]
        Render_noop [of "SetRenderable (Some indexless) (GameObject_init sample_transform)" None
          sample_driver "''model''" "''tex''" Triangles]
  by (simp add: GameObject_init_def)

end
